theory Spec2Isabelle
  imports Main "HOL-Library.Word"
begin

unbundle bit_operations_syntax

section \<open>JavaScript strings and numbers\<close>

text \<open>
  Strings are lists of 8-bit characters; the development is about ASCII text, where a
  JavaScript string and its byte sequence coincide. Numbers that the program only uses as
  integers (digits, period, epoch milliseconds) are \<open>int\<close> or \<open>nat\<close>.
\<close>

type_synonym byte = "8 word"

definition startsWith :: "string \<Rightarrow> string \<Rightarrow> bool" where
  "startsWith s p = (take (length p) s = p)"

text \<open>\<open>s.includes(p)\<close>: some suffix of \<open>s\<close> starts with \<open>p\<close>.\<close>

fun str_includes :: "string \<Rightarrow> string \<Rightarrow> bool" where
  "str_includes [] p = (p = [])"
| "str_includes (c # cs) p = (startsWith (c # cs) p \<or> str_includes cs p)"

text \<open>\<open>Number.prototype.toString()\<close> on an integer: decimal, no leading zero.\<close>

definition digit_char :: "int \<Rightarrow> char" where
  "digit_char d = ''0123456789'' ! nat d"

function toString_digits :: "int \<Rightarrow> string" where
  "toString_digits n =
     (if n < 10 then [digit_char n] else toString_digits (n div 10) @ [digit_char (n mod 10)])"
  by pat_completeness auto
termination
  by (relation "measure nat") auto

declare toString_digits.simps [simp del]

definition toString_int :: "int \<Rightarrow> string" where
  "toString_int n = (if n < 0 then CHR ''-'' # toString_digits (- n) else toString_digits n)"

text \<open>\<open>s.padStart(n, "0")\<close>.\<close>

definition padStart0 :: "nat \<Rightarrow> string \<Rightarrow> string" where
  "padStart0 n s = replicate (n - length s) (CHR ''0'') @ s"

definition is_digit :: "char \<Rightarrow> bool" where
  "is_digit c = (c \<in> set ''0123456789'')"

text \<open>
  The remainder operator \<open>a % b\<close> on integers: the sign follows the dividend, and a zero
  divisor gives \<open>NaN\<close>, here \<open>None\<close>.
\<close>

definition js_rem :: "int \<Rightarrow> int \<Rightarrow> int option" where
  "js_rem a b = (if b = 0 then None else Some (sgn a * (\<bar>a\<bar> mod \<bar>b\<bar>)))"

section \<open>Time remaining in the current window\<close>

text \<open>
  \<^verbatim>\<open>
  export function getTimeRemaining(period: number = 30): number {
    const now = Math.floor(Date.now() / 1000);
    return period - (now % period);
  }
  \<close>
  The clock reading \<open>Date.now()\<close> (epoch milliseconds) is the first argument.
\<close>

definition getTimeRemaining :: "int \<Rightarrow> int \<Rightarrow> int option" where
  "getTimeRemaining now_ms period =
     (let now = now_ms div 1000 in
      case js_rem now period of None \<Rightarrow> None | Some r \<Rightarrow> Some (period - r))"

section \<open>Base32 secrets\<close>

text \<open>
  The \<open>Secret\<close> class of the OTP library (\<open>OTPAuth.Secret\<close>) is a dependency that is not
  part of the sources. A secret is held here as its raw key bytes; the two operations the
  program uses, \<open>Secret.fromBase32\<close> and the \<open>base32\<close> property, follow the spec.
\<close>

definition base32_alphabet :: string where
  "base32_alphabet = ''ABCDEFGHIJKLMNOPQRSTUVWXYZ234567''"

definition toUpperCase_char :: "char \<Rightarrow> char" where
  "toUpperCase_char c =
     (case map_of (zip ''abcdefghijklmnopqrstuvwxyz'' ''ABCDEFGHIJKLMNOPQRSTUVWXYZ'') c of
        None \<Rightarrow> c | Some u \<Rightarrow> u)"

definition toLowerCase_char :: "char \<Rightarrow> char" where
  "toLowerCase_char c =
     (case map_of (zip ''ABCDEFGHIJKLMNOPQRSTUVWXYZ'' ''abcdefghijklmnopqrstuvwxyz'') c of
        None \<Rightarrow> c | Some l \<Rightarrow> l)"

definition toUpperCase :: "string \<Rightarrow> string" where
  "toUpperCase s = map toUpperCase_char s"

definition toLowerCase :: "string \<Rightarrow> string" where
  "toLowerCase s = map toLowerCase_char s"

fun index_of :: "char \<Rightarrow> string \<Rightarrow> nat option" where
  "index_of c [] = None"
| "index_of c (x # xs) = (if c = x then Some 0 else map_option Suc (index_of c xs))"

text \<open>The five bits of a Base32 symbol and the eight bits of a byte, most significant first.\<close>

definition bits_of :: "nat \<Rightarrow> nat \<Rightarrow> bool list" where
  "bits_of w v = map (\<lambda>i. odd (v div 2 ^ (w - 1 - i))) [0..<w]"

definition nat_of_bits :: "bool list \<Rightarrow> nat" where
  "nat_of_bits bs = foldl (\<lambda>acc b. 2 * acc + (if b then 1 else 0)) 0 bs"

fun bytes_of_bits :: "bool list \<Rightarrow> byte list" where
  "bytes_of_bits (b0 # b1 # b2 # b3 # b4 # b5 # b6 # b7 # rest) =
     of_nat (nat_of_bits [b0, b1, b2, b3, b4, b5, b6, b7]) # bytes_of_bits rest"
| "bytes_of_bits _ = []"

fun symbols_of_bits :: "bool list \<Rightarrow> string" where
  "symbols_of_bits [] = []"
| "symbols_of_bits (b0 # b1 # b2 # b3 # b4 # rest) =
     (base32_alphabet ! nat_of_bits [b0, b1, b2, b3, b4]) # symbols_of_bits rest"
| "symbols_of_bits bs = [base32_alphabet ! nat_of_bits (take 5 (bs @ [False, False, False, False]))]"

fun decode_symbols :: "string \<Rightarrow> bool list option" where
  "decode_symbols [] = Some []"
| "decode_symbols (c # cs) =
     (case index_of c base32_alphabet of
        None \<Rightarrow> None
      | Some i \<Rightarrow> (case decode_symbols cs of None \<Rightarrow> None | Some bs \<Rightarrow> Some (bits_of 5 i @ bs)))"

definition strip_padding :: "string \<Rightarrow> string" where
  "strip_padding s = rev (dropWhile (\<lambda>c. c = CHR ''='') (rev s))"

text \<open>
  Modelled from the spec: \<open>OTPAuth.Secret.fromBase32\<close>, missing from the sources. The spec
  (data model, \<open>secret\<close>, and Code Generator): a Base32-encoded shared key, RFC 4648
  alphabet A-Z and 2-7 with optional \<open>=\<close> padding, case-insensitive on input, that must
  decode to at least one byte; decoding fails with \<open>InvalidSecret\<close>, here \<open>None\<close>, on a
  character outside the alphabet or on an empty result.
\<close>

definition Secret_fromBase32 :: "string \<Rightarrow> byte list option" where
  "Secret_fromBase32 s =
     (case decode_symbols (toUpperCase (strip_padding s)) of
        None \<Rightarrow> None
      | Some bs \<Rightarrow> (let key = bytes_of_bits bs in if key = [] then None else Some key))"

text \<open>
  Modelled from the spec: the \<open>base32\<close> property of \<open>OTPAuth.Secret\<close>, missing from the
  sources. The spec (data model): the key as Base32 text, RFC 4648 alphabet, normalised
  to uppercase. No padding is written.
\<close>

definition Secret_base32 :: "byte list \<Rightarrow> string" where
  "Secret_base32 key = symbols_of_bits (concat (map (\<lambda>b. bits_of 8 (unat b)) key))"

section \<open>Code generation\<close>

text \<open>
  \<open>TOTP.generate\<close> of the OTP library is not part of the sources either; the spec (Code
  Generator) gives its contract, which the definitions below follow step by step. The
  hash is a parameter \<open>hmac\<close> (algorithm name, key, message).
\<close>

datatype gen_error = InvalidSecret | UnsupportedAlgorithm | InvalidPeriod

definition supported_algorithms :: "string list" where
  "supported_algorithms = [''SHA1'', ''SHA256'', ''SHA512'']"

definition counter_bytes :: "int \<Rightarrow> byte list" where
  "counter_bytes c = map (\<lambda>i. word_of_int (c div 256 ^ (7 - i))) [0..<8]"

definition byte_at :: "byte list \<Rightarrow> nat \<Rightarrow> byte" where
  "byte_at d i = (if i < length d then d ! i else 0)"

text \<open>
  Modelled from the spec: the dynamic truncation inside \<open>TOTP.generate\<close>, missing from the
  sources. The spec: take the low-order 4 bits of the last HMAC byte as an offset, extract
  4 bytes starting at that offset, mask off the top bit, interpret as an unsigned 31-bit
  big-endian integer. A read past the end of a digest counts as a zero byte.
\<close>

definition dynamic_truncate :: "byte list \<Rightarrow> int" where
  "dynamic_truncate digest =
     (let offset = unat (byte_at digest (length digest - 1) AND 15) in
      uint (byte_at digest offset AND 127) * 2 ^ 24
      + uint (byte_at digest (offset + 1)) * 2 ^ 16
      + uint (byte_at digest (offset + 2)) * 2 ^ 8
      + uint (byte_at digest (offset + 3)))"

text \<open>
  Modelled from the spec: the last step of \<open>TOTP.generate\<close>, missing from the sources. The
  spec: reduce modulo \<open>10^digits\<close> and left-pad with zeros to \<open>digits\<close> length.
\<close>

definition hotp_code :: "byte list \<Rightarrow> nat \<Rightarrow> string" where
  "hotp_code digest digits = padStart0 digits (toString_int (dynamic_truncate digest mod 10 ^ digits))"

text \<open>
  Modelled from the spec: \<open>new OTPAuth.TOTP({...}).generate()\<close> with
  \<open>Secret.fromBase32(secret)\<close>, missing from the sources. The spec: decode the Base32
  secret, failing with \<open>InvalidSecret\<close>; the counter is
  \<open>floor(currentUnixTimeSeconds / period)\<close>; an HMAC over the 8-byte big-endian counter
  with the selected hash and the decoded key; then truncation and padding. The algorithm
  is one of SHA1, SHA256, SHA512, unsupported values are rejected, and the period must be
  greater than 0 (data model).
\<close>

definition totp_generate ::
  "(string \<Rightarrow> byte list \<Rightarrow> byte list \<Rightarrow> byte list) \<Rightarrow> int \<Rightarrow> string \<Rightarrow> string \<Rightarrow> nat \<Rightarrow> int
     \<Rightarrow> gen_error + string" where
  "totp_generate hmac now_ms secret algorithm digits period =
     (case Secret_fromBase32 secret of
        None \<Rightarrow> Inl InvalidSecret
      | Some key \<Rightarrow>
          if algorithm \<notin> set supported_algorithms then Inl UnsupportedAlgorithm
          else if period \<le> 0 then Inl InvalidPeriod
          else Inr (hotp_code (hmac algorithm key (counter_bytes (now_ms div 1000 div period))) digits))"

text \<open>
  \<^verbatim>\<open>
  export function generateTOTP(secret, algorithm = 'SHA1', digits = 6, period = 30): string {
    try {
      const totp = new OTPAuth.TOTP({ issuer: '', label: '', algorithm, digits, period,
                                      secret: OTPAuth.Secret.fromBase32(secret) });
      return totp.generate();
    } catch (error) {
      console.error('Error generating TOTP:', error);
      return 'ERROR';
    }
  }
  \<close>
  Everything the library can throw is caught by the one handler.
\<close>

definition generateTOTP ::
  "(string \<Rightarrow> byte list \<Rightarrow> byte list \<Rightarrow> byte list) \<Rightarrow> int \<Rightarrow> string \<Rightarrow> string \<Rightarrow> nat \<Rightarrow> int \<Rightarrow> string" where
  "generateTOTP hmac now_ms secret algorithm digits period =
     (case totp_generate hmac now_ms secret algorithm digits period of
        Inl e \<Rightarrow> ''ERROR''
      | Inr code \<Rightarrow> code)"

section \<open>More string operations\<close>

text \<open>White space as \<open>String.prototype.trim\<close> and the regular expression class \<open>\s\<close> see it in ASCII.\<close>

definition is_space :: "char \<Rightarrow> bool" where
  "is_space c = (c \<in> set [CHR '' '', CHR 0x09, CHR 0x0A, CHR 0x0B, CHR 0x0C, CHR 0x0D])"

definition trim :: "string \<Rightarrow> string" where
  "trim s = rev (dropWhile is_space (rev (dropWhile is_space s)))"

text \<open>
  \<open>s.split(sep)\<close> for a non-empty separator: \<open>k\<close> counts the characters of a separator just
  matched that are still to be skipped, \<open>cur\<close> is the piece being read, reversed.
\<close>

fun split_go :: "string \<Rightarrow> nat \<Rightarrow> string \<Rightarrow> string \<Rightarrow> string list" where
  "split_go sep k cur [] = [rev cur]"
| "split_go sep k cur (c # cs) =
     (if 0 < k then split_go sep (k - 1) cur cs
      else if startsWith (c # cs) sep then rev cur # split_go sep (length sep - 1) [] cs
      else split_go sep 0 (c # cur) cs)"

definition split_str :: "string \<Rightarrow> string \<Rightarrow> string list" where
  "split_str sep s = split_go sep 0 [] s"

text \<open>\<open>xs[i]\<close> on an array: \<open>undefined\<close>, here \<open>None\<close>, past the end.\<close>

definition nth_opt :: "'a list \<Rightarrow> nat \<Rightarrow> 'a option" where
  "nth_opt xs i = (if i < length xs then Some (xs ! i) else None)"

text \<open>\<open>s.replace(p, r)\<close> with string arguments replaces the first occurrence only.\<close>

fun replace_first :: "string \<Rightarrow> string \<Rightarrow> string \<Rightarrow> string" where
  "replace_first p r [] = (if p = [] then r else [])"
| "replace_first p r (c # cs) =
     (if startsWith (c # cs) p then r @ drop (length p) (c # cs) else c # replace_first p r cs)"

definition hex_digit :: "nat \<Rightarrow> char" where
  "hex_digit d = ''0123456789abcdef'' ! d"

text \<open>\<open>byte.toString(16).padStart(2, '0')\<close>.\<close>

definition hex_byte :: "byte \<Rightarrow> string" where
  "hex_byte b = [hex_digit (unat b div 16), hex_digit (unat b mod 16)]"

definition hex_string :: "byte list \<Rightarrow> string" where
  "hex_string bs = concat (map hex_byte bs)"

section \<open>JSON values as JavaScript sees them\<close>

text \<open>
  The values \<open>JSON.parse\<close> can return. Numbers are the integer-valued ones. \<open>undefined\<close>,
  which a property read can give, is \<open>None\<close> of \<open>json option\<close>.
\<close>

datatype json = JNull | JBool bool | JNum int | JStr string | JArr "json list" | JObj "(string \<times> json) list"

text \<open>
  \<open>v.k\<close> for the keys this program reads (none of them is a built-in property of strings
  or arrays). Reading a property of \<open>null\<close> throws; the callers test for \<open>JNull\<close> first. With
  a repeated key the last entry counts.
\<close>

definition get_prop :: "json \<Rightarrow> string \<Rightarrow> json option" where
  "get_prop v k = (case v of JObj kvs \<Rightarrow> map_of (rev kvs) k | _ \<Rightarrow> None)"

definition truthy :: "json option \<Rightarrow> bool" where
  "truthy v =
     (case v of
        None \<Rightarrow> False
      | Some JNull \<Rightarrow> False
      | Some (JBool b) \<Rightarrow> b
      | Some (JNum n) \<Rightarrow> n \<noteq> 0
      | Some (JStr s) \<Rightarrow> s \<noteq> []
      | Some (JArr xs) \<Rightarrow> True
      | Some (JObj kvs) \<Rightarrow> True)"

definition typeof :: "json option \<Rightarrow> string" where
  "typeof v =
     (case v of
        None \<Rightarrow> ''undefined''
      | Some JNull \<Rightarrow> ''object''
      | Some (JBool b) \<Rightarrow> ''boolean''
      | Some (JNum n) \<Rightarrow> ''number''
      | Some (JStr s) \<Rightarrow> ''string''
      | Some (JArr xs) \<Rightarrow> ''object''
      | Some (JObj kvs) \<Rightarrow> ''object'')"

text \<open>\<open>a || b\<close>.\<close>

definition js_or :: "json option \<Rightarrow> json option \<Rightarrow> json option" where
  "js_or a b = (if truthy a then a else b)"

definition join_with :: "string \<Rightarrow> string list \<Rightarrow> string" where
  "join_with sep xs = (case xs of [] \<Rightarrow> [] | y # ys \<Rightarrow> y @ concat (map (\<lambda>z. sep @ z) ys))"

text \<open>
  String conversion, as a template literal applies it: an array joins its elements with
  commas, \<open>null\<close> elements as empty text; an object is \<open>[object Object]\<close>.
\<close>

fun js_toString :: "json \<Rightarrow> string" where
  "js_toString JNull = ''null''"
| "js_toString (JBool b) = (if b then ''true'' else ''false'')"
| "js_toString (JNum n) = toString_int n"
| "js_toString (JStr s) = s"
| "js_toString (JArr xs) =
     join_with '','' (map (\<lambda>x. if x = JNull then [] else js_toString x) xs)"
| "js_toString (JObj kvs) = ''[object Object]''"

definition js_toString_opt :: "json option \<Rightarrow> string" where
  "js_toString_opt v = (case v of None \<Rightarrow> ''undefined'' | Some x \<Rightarrow> js_toString x)"

section \<open>The platform\<close>

text \<open>
  What the program calls and the sources do not contain: the OTP library's URI parser,
  the \<open>URL\<close> class, \<open>JSON\<close>, the SHA-256 digest and the random byte source of the
  crypto module, and whether the secure store is there. They are parameters. A function
  that can throw returns the message of the error on the left, since the handler of the
  parser looks at messages; where the caller swallows the error, \<open>None\<close> is enough.
\<close>

record parsed_otp =
  p_type :: string
  p_secret :: "byte list option"
  p_label :: string
  p_issuer :: string
  p_algorithm :: string
  p_digits :: int
  p_period :: int

record url =
  url_pathname :: string
  url_search :: string

record platform =
  URI_parse :: "string \<Rightarrow> string + parsed_otp"
  URL_new :: "string \<Rightarrow> string + url"
  JSON_parse :: "string \<Rightarrow> json option"
  JSON_stringify :: "json \<Rightarrow> string"
  digestSHA256 :: "string \<Rightarrow> string"
  getRandomBytes :: "nat \<Rightarrow> nat \<Rightarrow> byte list"
  secure_store_available :: bool

section \<open>Account storage\<close>

text \<open>
  The two key-value stores and the number of draws made from the random source so far
  (the \<open>i\<close>-th draw of \<open>n\<close> bytes is \<open>getRandomBytes i n\<close>). Store operations do not fail
  in this model.
\<close>

record storage =
  async_items :: "string \<Rightarrow> string option"
  secure_items :: "string \<Rightarrow> string option"
  random_draws :: nat

definition ACCOUNTS_STORAGE_KEY :: string where
  "ACCOUNTS_STORAGE_KEY = ''onetime_authenticator_accounts''"

definition ENCRYPTION_KEY_STORAGE_KEY :: string where
  "ENCRYPTION_KEY_STORAGE_KEY = ''onetime_authenticator_encryption_key''"

definition ENCRYPTED_STORAGE_ENABLED_KEY :: string where
  "ENCRYPTED_STORAGE_ENABLED_KEY = ''encrypted_storage_enabled''"

definition generateEncryptionKey :: "platform \<Rightarrow> storage \<Rightarrow> string \<times> storage" where
  "generateEncryptionKey P st =
     (hex_string (getRandomBytes P (random_draws st) 32), st\<lparr>random_draws := Suc (random_draws st)\<rparr>)"

text \<open>
  \<^verbatim>\<open>
  async function getEncryptionKey(): Promise<string> {
    if (Platform.OS !== 'web' && SecureStore && await SecureStore.isAvailableAsync()) {
      let key = await SecureStore.getItemAsync(ENCRYPTION_KEY_STORAGE_KEY);
      if (!key) {
        key = await generateEncryptionKey();
        await SecureStore.setItemAsync(ENCRYPTION_KEY_STORAGE_KEY, key);
      }
      return key;
    } else {
      let key = await AsyncStorage.getItem(ENCRYPTION_KEY_STORAGE_KEY);
      if (!key) {
        key = await generateEncryptionKey();
        await AsyncStorage.setItem(ENCRYPTION_KEY_STORAGE_KEY, key);
      }
      return key;
    }
  }
  \<close>
  \<open>if (!key)\<close> holds for a missing key and for an empty one.
\<close>

definition getEncryptionKey :: "platform \<Rightarrow> storage \<Rightarrow> string \<times> storage" where
  "getEncryptionKey P st =
     (if secure_store_available P then
        (case secure_items st ENCRYPTION_KEY_STORAGE_KEY of
           Some k \<Rightarrow>
             if k \<noteq> [] then (k, st)
             else (let (k', st') = generateEncryptionKey P st
                   in (k', st'\<lparr>secure_items := (secure_items st')(ENCRYPTION_KEY_STORAGE_KEY \<mapsto> k')\<rparr>))
         | None \<Rightarrow>
             (let (k', st') = generateEncryptionKey P st
              in (k', st'\<lparr>secure_items := (secure_items st')(ENCRYPTION_KEY_STORAGE_KEY \<mapsto> k')\<rparr>)))
      else
        (case async_items st ENCRYPTION_KEY_STORAGE_KEY of
           Some k \<Rightarrow>
             if k \<noteq> [] then (k, st)
             else (let (k', st') = generateEncryptionKey P st
                   in (k', st'\<lparr>async_items := (async_items st')(ENCRYPTION_KEY_STORAGE_KEY \<mapsto> k')\<rparr>))
         | None \<Rightarrow>
             (let (k', st') = generateEncryptionKey P st
              in (k', st'\<lparr>async_items := (async_items st')(ENCRYPTION_KEY_STORAGE_KEY \<mapsto> k')\<rparr>))))"

text \<open>
  \<^verbatim>\<open>
  async function encryptData(data: string): Promise<string> {
    const key = await getEncryptionKey();
    const iv = await Crypto.getRandomBytesAsync(16);
    const ivHex = Array.from(iv).map(byte => byte.toString(16).padStart(2, '0')).join('');
    const encrypted = await Crypto.digestStringAsync(
      Crypto.CryptoDigestAlgorithm.SHA256, data + key + ivHex,
      { encoding: Crypto.CryptoEncoding.HEX });
    return JSON.stringify({ iv: ivHex, data: encrypted });
  }
  \<close>
\<close>

definition encryptData :: "platform \<Rightarrow> string \<Rightarrow> storage \<Rightarrow> string \<times> storage" where
  "encryptData P data st =
     (let (key, st1) = getEncryptionKey P st;
          ivHex = hex_string (getRandomBytes P (random_draws st1) 16);
          st2 = st1\<lparr>random_draws := Suc (random_draws st1)\<rparr>;
          encrypted = digestSHA256 P (data @ key @ ivHex)
      in (JSON_stringify P (JObj [(''iv'', JStr ivHex), (''data'', JStr encrypted)]), st2))"

text \<open>
  \<^verbatim>\<open>
  async function decryptData(encryptedData: string): Promise<string | null> {
    try {
      const { iv, data } = JSON.parse(encryptedData);
      const key = await getEncryptionKey();
      // ... This is just a placeholder for the actual decryption process
      return data;
    } catch (error) {
      console.error('Failed to decrypt data:', error);
      return null;
    }
  }
  \<close>
  \<open>decryptData\<close> returns the \<open>data\<close> field of the stored envelope as it is; \<open>null\<close> (here
  \<open>None\<close>) when the envelope does not parse or is \<open>null\<close>. An envelope without the field
  gives \<open>undefined\<close>, also \<open>None\<close>: the one caller only tests the result for truth.
\<close>

definition decryptData :: "platform \<Rightarrow> string \<Rightarrow> storage \<Rightarrow> json option \<times> storage" where
  "decryptData P encryptedData st =
     (case JSON_parse P encryptedData of
        None \<Rightarrow> (None, st)
      | Some env \<Rightarrow>
          if env = JNull then (None, st)
          else (let (key, st1) = getEncryptionKey P st in (get_prop env ''data'', st1)))"

definition isEncryptedStorageEnabled :: "storage \<Rightarrow> bool" where
  "isEncryptedStorageEnabled st = (async_items st ENCRYPTED_STORAGE_ENABLED_KEY = Some ''true'')"

text \<open>
  \<^verbatim>\<open>
  export async function saveAccounts(accounts: OTPAccount[]): Promise<void> {
    if (!accounts) accounts = [];
    const data = JSON.stringify(accounts);
    const useEncryption = await isEncryptedStorageEnabled();
    try {
      if (useEncryption) {
        const encryptedData = await encryptData(data);
        await AsyncStorage.setItem(ACCOUNTS_STORAGE_KEY, encryptedData);
      } else {
        await AsyncStorage.setItem(ACCOUNTS_STORAGE_KEY, data);
      }
    } catch (error) { console.error('Failed to save accounts:', error); }
  }
  \<close>
  \<open>if (!accounts) accounts = []\<close> replaces a missing or falsy argument by the empty array.
\<close>

definition saveAccounts :: "platform \<Rightarrow> json option \<Rightarrow> storage \<Rightarrow> storage" where
  "saveAccounts P accounts st =
     (let accounts' = (case accounts of None \<Rightarrow> JArr [] | Some a \<Rightarrow> if truthy (Some a) then a else JArr []);
          data = JSON_stringify P accounts'
      in if isEncryptedStorageEnabled st then
           (let (encryptedData, st1) = encryptData P data st
            in st1\<lparr>async_items := (async_items st1)(ACCOUNTS_STORAGE_KEY \<mapsto> encryptedData)\<rparr>)
         else st\<lparr>async_items := (async_items st)(ACCOUNTS_STORAGE_KEY \<mapsto> data)\<rparr>)"

text \<open>
  \<^verbatim>\<open>
  export async function getAccounts(): Promise<OTPAccount[]> {
    try {
      const data = await AsyncStorage.getItem(ACCOUNTS_STORAGE_KEY);
      if (!data) { return []; }
      const useEncryption = await isEncryptedStorageEnabled();
      if (useEncryption) {
        const decryptedData = await decryptData(data);
        return decryptedData ? JSON.parse(decryptedData) : [];
      } else {
        return JSON.parse(data);
      }
    } catch (error) {
      console.error('Failed to get accounts:', error);
      return [];
    }
  }
  \<close>
  What \<open>JSON.parse\<close> returns is returned as it is, array or not.
\<close>

definition getAccounts :: "platform \<Rightarrow> storage \<Rightarrow> json \<times> storage" where
  "getAccounts P st =
     (case async_items st ACCOUNTS_STORAGE_KEY of
        None \<Rightarrow> (JArr [], st)
      | Some data \<Rightarrow>
          if data = [] then (JArr [], st)
          else if isEncryptedStorageEnabled st then
            (let (decryptedData, st1) = decryptData P data st
             in if truthy decryptedData then
                  (case JSON_parse P (js_toString_opt decryptedData) of
                     None \<Rightarrow> (JArr [], st1)
                   | Some v \<Rightarrow> (v, st1))
                else (JArr [], st1))
          else (case JSON_parse P data of None \<Rightarrow> (JArr [], st) | Some v \<Rightarrow> (v, st)))"

text \<open>
  \<^verbatim>\<open>
  export async function importAccounts(backupData: string): Promise<boolean> {
    try {
      const data = JSON.parse(backupData);
      if (!data.accounts || !Array.isArray(data.accounts)) { return false; }
      // Validate each account has the required fields
      const validAccounts = data.accounts.filter((account: any) =>
        account &&
        typeof account.name === 'string' &&
        typeof account.issuer === 'string' &&
        typeof account.secret === 'string');
      await saveAccounts(validAccounts);
      return true;
    } catch (error) {
      console.error('Failed to import accounts:', error);
      return false;
    }
  }
  \<close>
  The filter has one conjunct per conjunct of the source. Reading \<open>data.accounts\<close> of a
  \<open>null\<close> throws, which the handler turns into \<open>false\<close>.
\<close>

definition valid_account :: "json \<Rightarrow> bool" where
  "valid_account account =
     (truthy (Some account)
      \<and> typeof (get_prop account ''name'') = ''string''
      \<and> typeof (get_prop account ''issuer'') = ''string''
      \<and> typeof (get_prop account ''secret'') = ''string'')"

definition importAccounts :: "platform \<Rightarrow> string \<Rightarrow> storage \<Rightarrow> bool \<times> storage" where
  "importAccounts P backupData st =
     (case JSON_parse P backupData of
        None \<Rightarrow> (False, st)
      | Some data \<Rightarrow>
          if data = JNull then (False, st)
          else (case get_prop data ''accounts'' of
                  Some (JArr xs) \<Rightarrow> (True, saveAccounts P (Some (JArr (filter valid_account xs))) st)
                | _ \<Rightarrow> (False, st)))"

section \<open>URI components and query strings\<close>

definition hex_val :: "char \<Rightarrow> nat option" where
  "hex_val c = index_of (toLowerCase_char c) ''0123456789abcdef''"

text \<open>
  Percent-decoding as \<open>URLSearchParams\<close> does it: a \<open>%\<close> that is not followed by two hex
  digits stays as it is.
\<close>

fun percent_decode :: "string \<Rightarrow> string" where
  "percent_decode (p # h # l # cs) =
     (if p = CHR ''%'' then
        (case hex_val h of
           None \<Rightarrow> p # percent_decode (h # l # cs)
         | Some a \<Rightarrow>
             (case hex_val l of
                None \<Rightarrow> p # percent_decode (h # l # cs)
              | Some b \<Rightarrow> char_of (16 * a + b) # percent_decode cs))
      else p # percent_decode (h # l # cs))"
| "percent_decode cs = cs"

text \<open>\<open>decodeURIComponent\<close> throws on a malformed escape: \<open>None\<close>.\<close>

fun decodeURIComponent :: "string \<Rightarrow> string option" where
  "decodeURIComponent [] = Some []"
| "decodeURIComponent (c # cs) =
     (if c = CHR ''%'' then
        (case cs of
           h # l # rest \<Rightarrow>
             (case hex_val h of
                None \<Rightarrow> None
              | Some a \<Rightarrow>
                  (case hex_val l of
                     None \<Rightarrow> None
                   | Some b \<Rightarrow> map_option (\<lambda>r. char_of (16 * a + b) # r) (decodeURIComponent rest)))
         | _ \<Rightarrow> None)
      else map_option (\<lambda>r. c # r) (decodeURIComponent cs))"

definition uri_unreserved :: string where
  "uri_unreserved =
     ''ABCDEFGHIJKLMNOPQRSTUVWXYZabcdefghijklmnopqrstuvwxyz0123456789-_.!~*'' @ [CHR 0x27] @ ''()''"

definition encodeURIComponent :: "string \<Rightarrow> string" where
  "encodeURIComponent s =
     concat (map (\<lambda>c. if c \<in> set uri_unreserved then [c]
                       else CHR ''%'' # toUpperCase (hex_byte (of_nat (of_char c)))) s)"

text \<open>
  \<open>new URLSearchParams(q)\<close>: one leading \<open>?\<close> is dropped, the pairs are split at \<open>&\<close>, empty
  pairs are skipped, a pair is split at its first \<open>=\<close>, \<open>+\<close> is a space, and both sides are
  percent-decoded. \<open>get\<close> returns the first value under a name, \<open>null\<close> (here \<open>None\<close>) if none.
\<close>

definition form_decode :: "string \<Rightarrow> string" where
  "form_decode s = percent_decode (map (\<lambda>c. if c = CHR ''+'' then CHR '' '' else c) s)"

definition parse_pair :: "string \<Rightarrow> string \<times> string" where
  "parse_pair kv =
     (let k = takeWhile (\<lambda>c. c \<noteq> CHR ''='') kv in (form_decode k, form_decode (drop (Suc (length k)) kv)))"

definition URLSearchParams :: "string \<Rightarrow> (string \<times> string) list" where
  "URLSearchParams q =
     map parse_pair (filter (\<lambda>kv. kv \<noteq> []) (split_str ''&'' (if startsWith q ''?'' then drop 1 q else q)))"

definition params_get :: "(string \<times> string) list \<Rightarrow> string \<Rightarrow> string option" where
  "params_get ps k = map_of ps k"

definition searchParams_get :: "url \<Rightarrow> string \<Rightarrow> string option" where
  "searchParams_get u k = params_get (URLSearchParams (url_search u)) k"

text \<open>\<open>a || b\<close> on values that are strings or \<open>null\<close>: the empty string is falsy too.\<close>

definition str_or :: "string option \<Rightarrow> string option \<Rightarrow> string option" where
  "str_or a b = (case a of None \<Rightarrow> b | Some s \<Rightarrow> if s \<noteq> [] then Some s else b)"

definition str_truthy :: "string option \<Rightarrow> bool" where
  "str_truthy a = (case a of None \<Rightarrow> False | Some s \<Rightarrow> s \<noteq> [])"

section \<open>Parsing scanned text\<close>

record credential =
  c_name :: string
  c_issuer :: string
  c_secret :: string
  c_algorithm :: string
  c_digits :: int
  c_period :: int

text \<open>The messages the parser's handler rethrows, under the names the spec gives the failures.\<close>

definition InvalidFormat :: string where
  "InvalidFormat = ''The QR code does not contain a valid authentication URL. Please check the format.''"

definition MissingSecret :: string where
  "MissingSecret = ''The QR code is missing the required secret key. Please ensure it contains a valid secret.''"

definition UnsupportedType :: string where
  "UnsupportedType = ''This type of authentication is not supported. Please use TOTP or HOTP.''"

definition RetryFailed :: string where
  "RetryFailed = ''Could not determine the authentication type. Please check the QR code.''"

text \<open>
  The message of the library's error for a secret that does not decode is not in the
  sources; the spec calls the failure \<open>InvalidSecret\<close>.
\<close>

definition InvalidSecretMessage :: string where
  "InvalidSecretMessage = ''InvalidSecret''"

text \<open>
  The migration branch: the text after the first \<open>otpauth-migration://offline?data=\<close> (up to
  the next occurrence of that prefix), its first 32 characters taken as the secret. The
  inner handler replaces the error by \<open>Could not parse migration data\<close>.
\<close>

definition migration_stage :: "string \<Rightarrow> string + credential" where
  "migration_stage n =
     (case nth_opt (split_str ''otpauth-migration://offline?data='' n) 1 of
        None \<Rightarrow> Inl ''Could not parse migration data''
      | Some migrationData \<Rightarrow>
          if migrationData = [] then Inl ''Could not parse migration data''
          else Inr \<lparr>c_name = ''Migrated Account'', c_issuer = ''Migration Service'',
                    c_secret = take 32 migrationData, c_algorithm = ''SHA1'',
                    c_digits = 6, c_period = 30\<rparr>)"

text \<open>
  \<open>normalizedUrl.match(/otpauth:\/\/[^\s"']*/i)\<close>: the leftmost \<open>otpauth://\<close> in any case, and
  everything after it up to white space or a quote.
\<close>

fun match_otpauth :: "string \<Rightarrow> string option" where
  "match_otpauth [] = None"
| "match_otpauth (c # cs) =
     (if startsWith (toLowerCase (c # cs)) ''otpauth://''
      then Some (take 10 (c # cs) @
                 takeWhile (\<lambda>x. \<not> is_space x \<and> x \<noteq> CHR 0x22 \<and> x \<noteq> CHR 0x27) (drop 10 (c # cs)))
      else match_otpauth cs)"

definition synthesize_url ::
  "string \<Rightarrow> string \<Rightarrow> string \<Rightarrow> string option \<Rightarrow> string option \<Rightarrow> string option \<Rightarrow> bool \<Rightarrow> string" where
  "synthesize_url issuer name secret algorithm digits period with_issuer =
     ''otpauth://totp/'' @ encodeURIComponent issuer @ '':'' @ encodeURIComponent name
       @ ''?secret='' @ secret
       @ (case algorithm of None \<Rightarrow> [] | Some a \<Rightarrow> ''&algorithm='' @ a)
       @ (case digits of None \<Rightarrow> [] | Some d \<Rightarrow> ''&digits='' @ d)
       @ (case period of None \<Rightarrow> [] | Some p \<Rightarrow> ''&period='' @ p)
       @ (if with_issuer then ''&issuer='' @ encodeURIComponent issuer else [])"

definition if_truthy :: "json option \<Rightarrow> string option" where
  "if_truthy v = (if truthy v then Some (js_toString_opt v) else None)"

text \<open>
  The JSON attempt. Whatever goes wrong inside it, a text that does not parse, a \<open>null\<close>
  whose property is read, or no secret among the aliases, lands in the same handler,
  which goes on to the query-string attempt.
\<close>

definition json_stage :: "platform \<Rightarrow> string \<Rightarrow> string + string" where
  "json_stage P n =
     (case JSON_parse P n of
        None \<Rightarrow> Inl ''JSON.parse''
      | Some jsonData \<Rightarrow>
          if jsonData = JNull then Inl ''Cannot read properties of null''
          else
            (let secret = js_or (js_or (get_prop jsonData ''secret'') (get_prop jsonData ''secretKey''))
                                (get_prop jsonData ''key'');
                 name = js_or (js_or (js_or (get_prop jsonData ''name'') (get_prop jsonData ''account''))
                                     (get_prop jsonData ''accountName''))
                              (Some (JStr ''Unknown''));
                 issuer = js_or (js_or (js_or (get_prop jsonData ''issuer'') (get_prop jsonData ''service''))
                                       (get_prop jsonData ''provider''))
                                (Some (JStr []))
             in if \<not> truthy secret then Inl ''No secret found in JSON''
                else Inr (synthesize_url (js_toString_opt issuer) (js_toString_opt name)
                            (js_toString_opt secret)
                            (if_truthy (get_prop jsonData ''algorithm''))
                            (if_truthy (get_prop jsonData ''digits''))
                            (if_truthy (get_prop jsonData ''period''))
                            (truthy issuer))))"

definition if_nonempty :: "string option \<Rightarrow> string option" where
  "if_nonempty v = (if str_truthy v then v else None)"

definition query_stage :: "string \<Rightarrow> string + string" where
  "query_stage n =
     (let queryStr = (if str_includes n ''?''
                      then (case nth_opt (split_str ''?'' n) 1 of Some q \<Rightarrow> q | None \<Rightarrow> n)
                      else n);
          params = URLSearchParams queryStr;
          secret = str_or (params_get params ''secret'') (params_get params ''key'');
          name = str_or (str_or (params_get params ''name'') (params_get params ''account'')) (Some ''Unknown'');
          issuer = str_or (str_or (params_get params ''issuer'') (params_get params ''service'')) (Some [])
      in case secret of
           None \<Rightarrow> Inl ''No secret found in parameters''
         | Some sec \<Rightarrow>
             if sec = [] then Inl ''No secret found in parameters''
             else Inr (synthesize_url (case issuer of None \<Rightarrow> [] | Some i \<Rightarrow> i)
                         (case name of None \<Rightarrow> [] | Some m \<Rightarrow> m) sec
                         (if_nonempty (params_get params ''algorithm''))
                         (if_nonempty (params_get params ''digits''))
                         (if_nonempty (params_get params ''period''))
                         (str_truthy issuer)))"

text \<open>
  \<^verbatim>\<open>
    } catch (queryError) {
      // If both JSON and query string parsing fail, try as a raw secret
      const cleanSecret = normalizedUrl.replace(/[^A-Z2-7]/gi, '');
      if (cleanSecret.length >= 16) {
        otpauthUrl = "otpauth://totp/Unknown?secret=" + cleanSecret;  // a template literal
      } else {
        throw new Error('Invalid OTP Auth URL format');
      }
    }
  \<close>
  The replacement keeps the Base32 letters of either case.
\<close>

definition cleanSecret :: "string \<Rightarrow> string" where
  "cleanSecret n = filter (\<lambda>c. toUpperCase_char c \<in> set base32_alphabet) n"

definition bare_stage :: "string \<Rightarrow> string + string" where
  "bare_stage n =
     (if 16 \<le> length (cleanSecret n) then Inr (''otpauth://totp/Unknown?secret='' @ cleanSecret n)
      else Inl ''Invalid OTP Auth URL format'')"

text \<open>The canonical URI: an embedded one, else from JSON, else from a query string, else a bare secret.\<close>

definition resolve_url :: "platform \<Rightarrow> string \<Rightarrow> string + string" where
  "resolve_url P n =
     (case match_otpauth n of
        Some u \<Rightarrow> Inr u
      | None \<Rightarrow>
          (case json_stage P n of
             Inr u \<Rightarrow> Inr u
           | Inl jsonError \<Rightarrow>
               (case query_stage n of
                  Inr u \<Rightarrow> Inr u
                | Inl queryError \<Rightarrow> bare_stage n)))"

definition add_type_normalized :: "string \<Rightarrow> string" where
  "add_type_normalized n =
     (if startsWith (toLowerCase n) ''otpauth://''
         \<and> \<not> startsWith (toLowerCase n) ''otpauth://totp/''
         \<and> \<not> startsWith (toLowerCase n) ''otpauth://hotp/''
      then replace_first ''otpauth://'' ''otpauth://totp/'' n else n)"

definition add_type_otpauth :: "string \<Rightarrow> string" where
  "add_type_otpauth u =
     (if \<not> str_includes (toLowerCase u) ''/totp/'' \<and> \<not> str_includes (toLowerCase u) ''/hotp/''
      then replace_first ''otpauth://'' ''otpauth://totp/'' u else u)"

text \<open>
  \<^verbatim>\<open>
    if (!parsedOtp.secret) {
      // Try to extract secret from query parameters
      const urlObj = new URL(normalizedUrl);
      const secret = urlObj.searchParams.get('secret');
      if (secret) {
        parsedOtp.secret = OTPAuth.Secret.fromBase32(secret);
      } else {
        throw new Error('Missing secret key');
      }
    }
  \<close>
  The secret: the one the library parsed, else the \<open>secret\<close> parameter of the raw URL, else
  \<open>Missing secret key\<close>. \<open>new URL\<close> and \<open>Secret.fromBase32\<close> can throw here.
\<close>

definition resolve_secret :: "platform \<Rightarrow> string \<Rightarrow> parsed_otp \<Rightarrow> string + byte list" where
  "resolve_secret P n p =
     (case p_secret p of
        Some key \<Rightarrow> Inr key
      | None \<Rightarrow>
          (case URL_new P n of
             Inl m \<Rightarrow> Inl m
           | Inr urlObj \<Rightarrow>
               (case searchParams_get urlObj ''secret'' of
                  None \<Rightarrow> Inl ''Missing secret key''
                | Some secret \<Rightarrow>
                    if secret = [] then Inl ''Missing secret key''
                    else (case Secret_fromBase32 secret of
                            None \<Rightarrow> Inl InvalidSecretMessage
                          | Some key \<Rightarrow> Inr key))))"

text \<open>Issuer from the library's parse, else from the \<open>issuer\<close> parameter of the canonical URI.\<close>

definition issuer_from_url :: "platform \<Rightarrow> string \<Rightarrow> string \<Rightarrow> string" where
  "issuer_from_url P u issuerName =
     (if issuerName \<noteq> [] then issuerName
      else (case URL_new P u of
              Inl e \<Rightarrow> []
            | Inr urlObj \<Rightarrow> (case searchParams_get urlObj ''issuer'' of None \<Rightarrow> [] | Some i \<Rightarrow> i)))"

text \<open>A label \<open>issuer:account\<close>: the explicit issuer wins, the second part is the account.\<close>

definition split_label :: "string \<Rightarrow> string \<Rightarrow> string \<times> string" where
  "split_label accountName issuerName =
     (let labelParts = split_str '':'' accountName
      in if 1 < length labelParts
         then (trim (labelParts ! 1), if issuerName = [] then trim (labelParts ! 0) else issuerName)
         else (accountName, issuerName))"

definition account_from_path :: "platform \<Rightarrow> string \<Rightarrow> string \<Rightarrow> string" where
  "account_from_path P u accountName =
     (if accountName \<noteq> [] then accountName
      else (case URL_new P u of
              Inl e \<Rightarrow> accountName
            | Inr urlObj \<Rightarrow>
                (let lastPart = last (split_str ''/'' (url_pathname urlObj))
                 in if lastPart \<noteq> [] \<and> lastPart \<noteq> ''totp'' \<and> lastPart \<noteq> ''hotp''
                    then (case decodeURIComponent lastPart of None \<Rightarrow> accountName | Some d \<Rightarrow> d)
                    else accountName)))"

definition build_credential :: "platform \<Rightarrow> string \<Rightarrow> parsed_otp \<Rightarrow> byte list \<Rightarrow> credential" where
  "build_credential P u p key =
     (let issuer1 = issuer_from_url P u (p_issuer p);
          (account2, issuer2) = split_label (p_label p) issuer1;
          account3 = account_from_path P u account2;
          (accountName, issuerName) =
             (if account3 = [] \<and> issuer2 = [] then (''Unknown Account'', ''Unknown Service'')
              else (account3, issuer2))
      in \<lparr>c_name = accountName, c_issuer = issuerName, c_secret = Secret_base32 key,
          c_algorithm = (if p_algorithm p = [] then ''SHA1'' else p_algorithm p),
          c_digits = (if p_digits p = 0 then 6 else p_digits p),
          c_period = (if p_period p = 0 then 30 else p_period p)\<rparr>)"

text \<open>\<open>if (!parsedOtp.type) parsedOtp.type = 'totp'\<close>: the type after the default is applied.\<close>

definition otp_type_of :: "parsed_otp \<Rightarrow> string" where
  "otp_type_of p = (if p_type p = [] then ''totp'' else p_type p)"

text \<open>
  The \<open>try\<close> block of \<open>parseOTPAuthURL\<close>, in two parts: up to the canonical URI, and
  from there on. A failure carries the message of the error and the value
  \<open>normalizedUrl\<close> has at that moment, which the handler reads.
\<close>

definition parse_canonical :: "platform \<Rightarrow> string \<Rightarrow> string \<Rightarrow> (string \<times> string) + credential" where
  "parse_canonical P n0 u0 =
     (let n = add_type_normalized n0; u = add_type_otpauth u0 in
      case URI_parse P u of
        Inl m \<Rightarrow> Inl (m, n)
      | Inr p \<Rightarrow>
          if toLowerCase (otp_type_of p) \<noteq> ''totp'' \<and> toLowerCase (otp_type_of p) \<noteq> ''hotp''
          then Inl (''Unsupported OTP type: '' @ otp_type_of p @ ''. Only TOTP and HOTP are supported.'', n)
          else (case resolve_secret P n p of
                  Inl m \<Rightarrow> Inl (m, n)
                | Inr key \<Rightarrow> Inr (build_credential P u p key)))"

definition parse_body :: "platform \<Rightarrow> string \<Rightarrow> (string \<times> string) + credential" where
  "parse_body P url =
     (let n0 = trim url in
      if startsWith n0 ''otpauth-migration://'' then
        (case migration_stage n0 of Inl m \<Rightarrow> Inl (m, n0) | Inr c \<Rightarrow> Inr c)
      else
        (case resolve_url P n0 of
           Inl m \<Rightarrow> Inl (m, n0)
         | Inr u0 \<Rightarrow> parse_canonical P n0 u0))"

text \<open>
  \<open>parseOTPAuthURL\<close> with its handler:
  \<^verbatim>\<open>
    } catch (error) {
      ...
      if (error instanceof Error) {
        if (error.message.includes('Invalid OTP Auth URL format')) {
          throw new Error('The QR code does not contain a valid authentication URL. ...');
        } else if (error.message.includes('Missing secret key')) {
          throw new Error('The QR code is missing the required secret key. ...');
        } else if (error.message.includes('Unsupported OTP type')) {
          throw new Error('This type of authentication is not supported. ...');
        } else if (error.message.includes('Missing OTP type')) {
          // Try to recover by assuming TOTP
          try {
            const modifiedUrl = normalizedUrl.replace('otpauth://', 'otpauth://totp/');
            return parseOTPAuthURL(modifiedUrl);
          } catch (retryError) {
            throw new Error('Could not determine the authentication type. ...');
          }
        }
        throw error;
      }
      return null;
    }
  \<close>
  The first argument bounds the depth of the calls the function makes to itself; \<open>None\<close>
  means the bound was reached. A thrown error is \<open>Inl\<close> of its message; everything
  thrown inside the \<open>try\<close> block is an \<open>Error\<close>, so \<open>return null\<close> is not reached.
\<close>

fun parseOTPAuthURL :: "nat \<Rightarrow> platform \<Rightarrow> string \<Rightarrow> (string + credential) option" where
  "parseOTPAuthURL 0 P url = None"
| "parseOTPAuthURL (Suc depth) P url =
     (case parse_body P url of
        Inr c \<Rightarrow> Some (Inr c)
      | Inl (message, normalizedUrl) \<Rightarrow>
          if str_includes message ''Invalid OTP Auth URL format'' then Some (Inl InvalidFormat)
          else if str_includes message ''Missing secret key'' then Some (Inl MissingSecret)
          else if str_includes message ''Unsupported OTP type'' then Some (Inl UnsupportedType)
          else if str_includes message ''Missing OTP type'' then
            (case parseOTPAuthURL depth P (replace_first ''otpauth://'' ''otpauth://totp/'' normalizedUrl) of
               None \<Rightarrow> None
             | Some (Inr c) \<Rightarrow> Some (Inr c)
             | Some (Inl retryError) \<Rightarrow> Some (Inl RetryFailed))
          else Some (Inl message))"

section \<open>A reference platform\<close>

text \<open>
  Concrete stand-ins for the platform, used to run the program on concrete inputs. They
  are simplified: ASCII text, integer JSON numbers, no \<open>\u\<close> escapes, URLs of the shape
  \<open>scheme://host/path?query#fragment\<close> or \<open>scheme:path?query#fragment\<close>.
\<close>

definition digit_value :: "char \<Rightarrow> int" where
  "digit_value c = (case index_of c ''0123456789'' of None \<Rightarrow> 0 | Some d \<Rightarrow> int d)"

definition decimal_value :: "string \<Rightarrow> int" where
  "decimal_value s =
     (if s \<noteq> [] \<and> list_all is_digit s
      then foldl (\<lambda>acc c. 10 * acc + digit_value c) 0 s else 0)"

definition param_or_empty :: "(string \<times> string) list \<Rightarrow> string \<Rightarrow> string" where
  "param_or_empty ps k = (case params_get ps k of None \<Rightarrow> [] | Some v \<Rightarrow> v)"

text \<open>
  Modelled from the spec: \<open>OTPAuth.URI.parse\<close>, missing from the sources. The spec
  (URI / Migration Parser, and the wire format
  \<open>otpauth://{totp|hotp}/[{issuer}:]{account}?secret=BASE32&issuer=ISS&algorithm=ALG&digits=N&period=N\<close>)
  says that it parses the URI into its components (type, label, issuer parameter, secret
  parameter, algorithm, digits, period), that all query values are percent-decoded, and
  that a component can be absent from the parsed structure. An absent or empty text
  component is the empty string, an absent number is 0, a secret parameter that is there
  is decoded as Base32.
\<close>

definition ref_URI_parse :: "string \<Rightarrow> string + parsed_otp" where
  "ref_URI_parse uri =
     (if \<not> startsWith (toLowerCase uri) ''otpauth://'' then Inl ''Invalid URI format''
      else
        (let rest = drop 10 uri;
             ty = takeWhile (\<lambda>c. c \<noteq> CHR ''/'' \<and> c \<noteq> CHR ''?'') rest;
             after = drop (length ty) rest;
             label_raw = takeWhile (\<lambda>c. c \<noteq> CHR ''?'') (drop 1 after);
             params = URLSearchParams (drop (length label_raw) (drop 1 after));
             parsed = \<lparr>p_type = ty, p_secret = None, p_label = percent_decode label_raw,
                       p_issuer = param_or_empty params ''issuer'',
                       p_algorithm = param_or_empty params ''algorithm'',
                       p_digits = decimal_value (param_or_empty params ''digits''),
                       p_period = decimal_value (param_or_empty params ''period'')\<rparr>
         in if param_or_empty params ''secret'' = [] then Inr parsed
            else (case Secret_fromBase32 (param_or_empty params ''secret'') of
                    None \<Rightarrow> Inl InvalidSecretMessage
                  | Some key \<Rightarrow> Inr (parsed\<lparr>p_secret := Some key\<rparr>))))"

definition scheme_chars :: string where
  "scheme_chars = ''ABCDEFGHIJKLMNOPQRSTUVWXYZabcdefghijklmnopqrstuvwxyz0123456789+-.''"

definition ref_URL_new :: "string \<Rightarrow> string + url" where
  "ref_URL_new s =
     (let s1 = trim s; scheme = takeWhile (\<lambda>c. c \<noteq> CHR '':'') s1 in
      if scheme = [] \<or> length scheme = length s1
         \<or> \<not> list_all (\<lambda>c. c \<in> set (take 52 scheme_chars)) (take 1 scheme)
         \<or> \<not> list_all (\<lambda>c. c \<in> set scheme_chars) scheme
      then Inl ''Invalid URL''
      else
        (let rest = takeWhile (\<lambda>c. c \<noteq> CHR ''#'') (drop (Suc (length scheme)) s1);
             before_query = takeWhile (\<lambda>c. c \<noteq> CHR ''?'') rest;
             search = drop (length before_query) rest;
             path = (if startsWith before_query ''//''
                     then dropWhile (\<lambda>c. c \<noteq> CHR ''/'') (drop 2 before_query)
                     else before_query)
         in Inr \<lparr>url_pathname = path, url_search = (if search = ''?'' then [] else search)\<rparr>))"

text \<open>A JSON reader by recursive descent. The first argument bounds the nesting of calls.\<close>

definition json_space :: "char \<Rightarrow> bool" where
  "json_space c = (c \<in> set [CHR '' '', CHR 0x09, CHR 0x0A, CHR 0x0D])"

definition unescape :: "char \<Rightarrow> char option" where
  "unescape e =
     map_of [(CHR 0x22, CHR 0x22), (CHR 0x5C, CHR 0x5C), (CHR ''/'', CHR ''/''), (CHR ''b'', CHR 0x08),
             (CHR ''f'', CHR 0x0C), (CHR ''n'', CHR 0x0A), (CHR ''r'', CHR 0x0D), (CHR ''t'', CHR 0x09)] e"

fun read_chars :: "string \<Rightarrow> (string \<times> string) option" where
  "read_chars [] = None"
| "read_chars [c] = (if c = CHR 0x22 then Some ([], []) else None)"
| "read_chars (c # e # rest) =
     (if c = CHR 0x22 then Some ([], e # rest)
      else if c = CHR 0x5C then
        (case unescape e of
           None \<Rightarrow> None
         | Some x \<Rightarrow> map_option (\<lambda>(str, r). (x # str, r)) (read_chars rest))
      else if of_char c < (32 :: nat) then None
      else map_option (\<lambda>(str, r). (c # str, r)) (read_chars (e # rest)))"

definition read_number :: "string \<Rightarrow> (json \<times> string) option" where
  "read_number s =
     (let negative = startsWith s ''-'';
          body = (if negative then drop 1 s else s);
          ds = takeWhile is_digit body;
          r = drop (length ds) body
      in if ds = [] \<or> (1 < length ds \<and> startsWith ds ''0'') then None
         else if startsWith r ''.'' \<or> startsWith r ''e'' \<or> startsWith r ''E'' then None
         else Some (JNum (if negative then - decimal_value ds else decimal_value ds), r))"

fun read_value :: "nat \<Rightarrow> string \<Rightarrow> (json \<times> string) option"
  and read_elements :: "nat \<Rightarrow> string \<Rightarrow> (json list \<times> string) option"
  and read_members :: "nat \<Rightarrow> string \<Rightarrow> ((string \<times> json) list \<times> string) option"
where
  "read_value 0 s = None"
| "read_value (Suc f) s =
     (case dropWhile json_space s of
        [] \<Rightarrow> None
      | c # cs \<Rightarrow>
          if c = CHR ''{'' then
            (if startsWith (dropWhile json_space cs) ''}'' then Some (JObj [], drop 1 (dropWhile json_space cs))
             else map_option (\<lambda>(ms, r). (JObj ms, r)) (read_members f cs))
          else if c = CHR ''['' then
            (if startsWith (dropWhile json_space cs) '']'' then Some (JArr [], drop 1 (dropWhile json_space cs))
             else map_option (\<lambda>(vs, r). (JArr vs, r)) (read_elements f cs))
          else if c = CHR 0x22 then map_option (\<lambda>(str, r). (JStr str, r)) (read_chars cs)
          else if startsWith (c # cs) ''true'' then Some (JBool True, drop 4 (c # cs))
          else if startsWith (c # cs) ''false'' then Some (JBool False, drop 5 (c # cs))
          else if startsWith (c # cs) ''null'' then Some (JNull, drop 4 (c # cs))
          else read_number (c # cs))"
| "read_elements 0 s = None"
| "read_elements (Suc f) s =
     (case read_value f s of
        None \<Rightarrow> None
      | Some (v, r) \<Rightarrow>
          (case dropWhile json_space r of
             [] \<Rightarrow> None
           | c # r' \<Rightarrow>
               if c = CHR '','' then map_option (\<lambda>(vs, r''). (v # vs, r'')) (read_elements f r')
               else if c = CHR '']'' then Some ([v], r')
               else None))"
| "read_members 0 s = None"
| "read_members (Suc f) s =
     (case dropWhile json_space s of
        [] \<Rightarrow> None
      | q # r \<Rightarrow>
          if q \<noteq> CHR 0x22 then None
          else (case read_chars r of
                  None \<Rightarrow> None
                | Some (k, r1) \<Rightarrow>
                    (case dropWhile json_space r1 of
                       [] \<Rightarrow> None
                     | colon # r2 \<Rightarrow>
                         if colon \<noteq> CHR '':'' then None
                         else (case read_value f r2 of
                                 None \<Rightarrow> None
                               | Some (v, r3) \<Rightarrow>
                                   (case dropWhile json_space r3 of
                                      [] \<Rightarrow> None
                                    | c # r4 \<Rightarrow>
                                        if c = CHR '','' then
                                          map_option (\<lambda>(ms, r5). ((k, v) # ms, r5)) (read_members f r4)
                                        else if c = CHR ''}'' then Some ([(k, v)], r4)
                                        else None)))))"

definition ref_JSON_parse :: "string \<Rightarrow> json option" where
  "ref_JSON_parse s =
     (case read_value (2 * length s + 2) s of
        None \<Rightarrow> None
      | Some (v, r) \<Rightarrow> if dropWhile json_space r = [] then Some v else None)"

definition quote_string :: "string \<Rightarrow> string" where
  "quote_string s =
     [CHR 0x22] @ concat (map (\<lambda>c. if c = CHR 0x22 \<or> c = CHR 0x5C then [CHR 0x5C, c] else [c]) s) @ [CHR 0x22]"

fun ref_JSON_stringify :: "json \<Rightarrow> string" where
  "ref_JSON_stringify JNull = ''null''"
| "ref_JSON_stringify (JBool b) = (if b then ''true'' else ''false'')"
| "ref_JSON_stringify (JNum n) = toString_int n"
| "ref_JSON_stringify (JStr s) = quote_string s"
| "ref_JSON_stringify (JArr xs) = ''['' @ join_with '','' (map ref_JSON_stringify xs) @ '']''"
| "ref_JSON_stringify (JObj kvs) =
     ''{'' @ join_with '','' (map (\<lambda>kv. quote_string (fst kv) @ '':'' @ ref_JSON_stringify (snd kv)) kvs) @ ''}''"

text \<open>Stand-ins for the digest (64 hex characters) and for the random source.\<close>

definition sample_digest :: "string \<Rightarrow> string" where
  "sample_digest s = hex_string (map (\<lambda>c. of_nat (of_char c)) (take 32 (s @ replicate 32 (CHR ''x''))))"

definition sample_random :: "nat \<Rightarrow> nat \<Rightarrow> byte list" where
  "sample_random i n = map (\<lambda>j. of_nat (7 * i + j)) [0..<n]"

definition ref_platform :: platform where
  "ref_platform =
     \<lparr>URI_parse = ref_URI_parse, URL_new = ref_URL_new, JSON_parse = ref_JSON_parse,
      JSON_stringify = ref_JSON_stringify, digestSHA256 = sample_digest,
      getRandomBytes = sample_random, secure_store_available = False\<rparr>"

definition empty_storage :: storage where
  "empty_storage = \<lparr>async_items = Map.empty, secure_items = Map.empty, random_draws = 0\<rparr>"

section \<open>What the import keeps, in the words of the claim\<close>

text \<open>
  The entries \<open>importAccounts\<close> is said to keep: those whose \<open>name\<close>, \<open>issuer\<close> and
  \<open>secret\<close> fields are strings; and the \<open>accounts\<close> array of a parsed backup, if it has
  one. They are compared with the filter and the test of the source below.
\<close>

definition is_string :: "json option \<Rightarrow> bool" where
  "is_string v = (case v of Some (JStr s) \<Rightarrow> True | _ \<Rightarrow> False)"

definition has_string_fields :: "json \<Rightarrow> bool" where
  "has_string_fields a =
     (is_string (get_prop a ''name'') \<and> is_string (get_prop a ''issuer'') \<and> is_string (get_prop a ''secret''))"

definition accounts_array :: "json \<Rightarrow> json list option" where
  "accounts_array data =
     (case data of
        JObj kvs \<Rightarrow> (case map_of (rev kvs) ''accounts'' of Some (JArr xs) \<Rightarrow> Some xs | _ \<Rightarrow> None)
      | _ \<Rightarrow> None)"

section \<open>Sample data\<close>

definition sample_backup :: string where
  "sample_backup = ''{\"accounts\":[{\"name\":\"alice\",\"issuer\":\"Example\",\"secret\":\"abc def\",\"algorithm\":\"MD5\",\"digits\":-1,\"period\":0},{\"name\":\"bob\",\"issuer\":7,\"secret\":\"JBSWY3DPEHPK3PXP\"},null],\"version\":\"1.0.0\"}''"

definition sample_entry :: json where
  "sample_entry =
     JObj [(''name'', JStr ''alice''), (''issuer'', JStr ''Example''), (''secret'', JStr ''abc def''),
           (''algorithm'', JStr ''MD5''), (''digits'', JNum (- 1)), (''period'', JNum 0)]"

definition sample_entries :: "json list" where
  "sample_entries =
     [sample_entry,
      JObj [(''name'', JStr ''bob''), (''issuer'', JNum 7), (''secret'', JStr ''JBSWY3DPEHPK3PXP'')],
      JNull]"

definition sample_data :: json where
  "sample_data = JObj [(''accounts'', JArr sample_entries), (''version'', JStr ''1.0.0'')]"

definition plain_storage :: storage where
  "plain_storage =
     empty_storage\<lparr>async_items :=
       [ACCOUNTS_STORAGE_KEY \<mapsto> ''[{\"name\":\"old\",\"issuer\":\"Old\",\"secret\":\"GEZDGNBV\"}]'']\<rparr>"

definition encrypted_storage :: storage where
  "encrypted_storage = empty_storage\<lparr>async_items := [ENCRYPTED_STORAGE_ENABLED_KEY \<mapsto> ''true'']\<rparr>"

definition example_url :: string where
  "example_url = ''otpauth://totp/Example:alice@example.com?secret=JBSWY3DPEHPK3PXP&issuer=Example''"

definition example_credential :: credential where
  "example_credential =
     \<lparr>c_name = ''alice@example.com'', c_issuer = ''Example'', c_secret = ''JBSWY3DPEHPK3PXP'',
      c_algorithm = ''SHA1'', c_digits = 6, c_period = 30\<rparr>"

definition empty_secret_url :: string where
  "empty_secret_url = ''otpauth://totp/Unknown?secret=''"

definition example_parsed :: parsed_otp where
  "example_parsed =
     \<lparr>p_type = ''totp'', p_secret = Some [72, 101, 108, 108, 111, 33, 222, 173, 190, 239],
      p_label = ''Example:alice@example.com'', p_issuer = ''Example'', p_algorithm = [],
      p_digits = 0, p_period = 0\<rparr>"

definition empty_secret_parsed :: parsed_otp where
  "empty_secret_parsed =
     \<lparr>p_type = ''totp'', p_secret = None, p_label = ''Unknown'', p_issuer = [], p_algorithm = [],
      p_digits = 0, p_period = 0\<rparr>"


definition migration_url :: string where
  "migration_url = ''otpauth-migration://offline?data=abc def''"

definition migration_credential :: credential where
  "migration_credential =
     \<lparr>c_name = ''Migrated Account'', c_issuer = ''Migration Service'', c_secret = ''abc def'',
      c_algorithm = ''SHA1'', c_digits = 6, c_period = 30\<rparr>"


section \<open>The retry, in the words of the handler\<close>





section \<open>The invariants of the data model, in the words of the spec\<close>

text \<open>
  A secret is normalised when it has no white space and is its own uppercase form. The
  invariant of a credential: normalised secret, positive digits and period, one of the
  three algorithms. \<open>stored_invariant\<close> is the same for an entry of the stored array.
\<close>

definition normalized_secret :: "string \<Rightarrow> bool" where
  "normalized_secret s = (toUpperCase s = s \<and> list_all (\<lambda>c. \<not> is_space c) s)"

definition credential_invariant :: "credential \<Rightarrow> bool" where
  "credential_invariant c =
     (normalized_secret (c_secret c) \<and> 0 < c_digits c \<and> 0 < c_period c
      \<and> c_algorithm c \<in> set supported_algorithms)"

definition stored_invariant :: "json \<Rightarrow> bool" where
  "stored_invariant a =
     (case get_prop a ''secret'' of
        Some (JStr s) \<Rightarrow>
          normalized_secret s
          \<and> (case get_prop a ''algorithm'' of Some (JStr g) \<Rightarrow> g \<in> set supported_algorithms | _ \<Rightarrow> False)
          \<and> (case get_prop a ''digits'' of Some (JNum d) \<Rightarrow> 0 < d | _ \<Rightarrow> False)
          \<and> (case get_prop a ''period'' of Some (JNum p) \<Rightarrow> 0 < p | _ \<Rightarrow> False)
      | _ \<Rightarrow> False)"

text \<open>A stand-in hash for concrete runs: the first twenty bytes of key and message, repeated.\<close>

definition sample_hmac :: "string \<Rightarrow> byte list \<Rightarrow> byte list \<Rightarrow> byte list" where
  "sample_hmac alg key msg = take 20 (key @ msg @ key @ msg)"


section \<open>The bare secret, in the words of the claim\<close>

text \<open>
  The characters the bare-secret fallback keeps: the 32 characters of the Base32 alphabet
  and, the pattern being case-insensitive, the lower-case forms of its letters. Every
  other character is stripped. \<open>bare_secret_text\<close> is a text that leaves exactly 16 of
  them.
\<close>

definition base32_letters :: string where
  "base32_letters = ''ABCDEFGHIJKLMNOPQRSTUVWXYZ234567abcdefghijklmnopqrstuvwxyz''"

definition bare_secret_text :: string where
  "bare_secret_text = ''JBSW Y3DP-ehpk 3PXP 189''"

definition bare_secret_credential :: credential where
  "bare_secret_credential =
     \<lparr>c_name = ''Unknown'', c_issuer = [], c_secret = ''JBSWY3DPEHPK3PXP'',
      c_algorithm = ''SHA1'', c_digits = 6, c_period = 30\<rparr>"

section \<open>A URI parser that insists on a secret\<close>

text \<open>
  The URI parser of the otpauth package does not return a structure without a secret: on
  a URI whose \<open>secret\<close> parameter is missing or empty it throws, and its message has none
  of the phrases the handler of \<open>parseOTPAuthURL\<close> looks for. \<open>strict_platform\<close> is the
  reference platform with such a parser.
\<close>

definition EmptySecretMessage :: string where
  "EmptySecretMessage = ''Missing or invalid 'secret' parameter''"

definition strict_URI_parse :: "string \<Rightarrow> string + parsed_otp" where
  "strict_URI_parse uri =
     (case ref_URI_parse uri of
        Inl m \<Rightarrow> Inl m
      | Inr p \<Rightarrow> if p_secret p = None then Inl EmptySecretMessage else Inr p)"

definition strict_platform :: platform where
  "strict_platform = ref_platform\<lparr>URI_parse := strict_URI_parse\<rparr>"

section \<open>What the library hands to the parser\<close>

text \<open>
  \<open>nonnegative_numbers\<close> says that the URI parser of the platform never delivers a
  negative number of digits or a negative period. \<open>sha384_url\<close> names an algorithm
  outside the three the application supports.
\<close>

definition nonnegative_numbers :: "platform \<Rightarrow> bool" where
  "nonnegative_numbers P =
     (\<forall>u p. URI_parse P u = Inr p \<longrightarrow> 0 \<le> p_digits p \<and> 0 \<le> p_period p)"

definition sha384_url :: string where
  "sha384_url = ''otpauth://totp/x?secret=JBSWY3DPEHPK3PXP&algorithm=SHA384&digits=8''"

definition sha384_parsed :: parsed_otp where
  "sha384_parsed =
     \<lparr>p_type = ''totp'', p_secret = Some [72, 101, 108, 108, 111, 33, 222, 173, 190, 239],
      p_label = ''x'', p_issuer = [], p_algorithm = ''SHA384'', p_digits = 8, p_period = 0\<rparr>"

definition sha384_credential :: credential where
  "sha384_credential =
     \<lparr>c_name = ''x'', c_issuer = [], c_secret = ''JBSWY3DPEHPK3PXP'',
      c_algorithm = ''SHA384'', c_digits = 8, c_period = 30\<rparr>"


section \<open>Properties of the code generator\<close>

lemma js_rem_nonneg: "0 \<le> a \<Longrightarrow> 0 < b \<Longrightarrow> js_rem a b = Some (a mod b)"
  by (simp add: js_rem_def sgn_if)

lemma digit_char_is_digit: "0 \<le> d \<Longrightarrow> d < 10 \<Longrightarrow> is_digit (digit_char d)"
proof -
  assume "0 \<le> d" "d < 10"
  then have k: "nat d < length ''0123456789''" by simp
  have "list_all is_digit ''0123456789''" by (simp add: is_digit_def)
  then have "\<forall>k < length ''0123456789''. is_digit (''0123456789'' ! k)"
    by (simp only: list_all_length)
  then show ?thesis using k unfolding digit_char_def by blast
qed

lemma toString_digits_all: "0 \<le> n \<Longrightarrow> list_all is_digit (toString_digits n)"
proof (induction n rule: toString_digits.induct)
  case (1 n)
  show ?case
  proof (cases "n < 10")
    case True
    then show ?thesis using "1.prems"
      by (subst toString_digits.simps) (simp add: digit_char_is_digit)
  next
    case False
    then have "list_all is_digit (toString_digits (n div 10))" using 1 by simp
    moreover have "is_digit (digit_char (n mod 10))" by (rule digit_char_is_digit) simp_all
    ultimately show ?thesis using False by (subst toString_digits.simps) simp
  qed
qed

lemma toString_digits_length: "0 < d \<Longrightarrow> n < 10 ^ d \<Longrightarrow> length (toString_digits n) \<le> d"
proof (induction n arbitrary: d rule: toString_digits.induct)
  case (1 n)
  show ?case
  proof (cases "n < 10")
    case True
    then show ?thesis using "1.prems" by (subst toString_digits.simps) simp
  next
    case False
    obtain e where d: "d = Suc e" using "1.prems"(1) by (cases d) auto
    have "e \<noteq> 0" using False "1.prems"(2) d by (cases e) auto
    then have e: "0 < e" by simp
    have "n < 10 * 10 ^ e" using "1.prems"(2) d by simp
    then have "n div 10 < 10 ^ e" by simp
    then have "length (toString_digits (n div 10)) \<le> e" using "1.IH"[OF False e] by simp
    then show ?thesis using False d by (subst toString_digits.simps) simp
  qed
qed

lemma hotp_code_shape:
  "0 < digits \<Longrightarrow> length (hotp_code dg digits) = digits \<and> list_all is_digit (hotp_code dg digits)"
proof -
  assume d: "0 < digits"
  define v where "v = dynamic_truncate dg mod 10 ^ digits"
  have nn: "0 \<le> v" and lt: "v < 10 ^ digits" by (simp_all add: v_def)
  have ts: "toString_int v = toString_digits v" using nn by (simp add: toString_int_def)
  have len: "length (toString_digits v) \<le> digits" by (rule toString_digits_length[OF d lt])
  have dig: "list_all is_digit (toString_digits v)" by (rule toString_digits_all[OF nn])
  have z: "is_digit (CHR ''0'')" by (simp add: is_digit_def)
  have code: "hotp_code dg digits =
      replicate (digits - length (toString_digits v)) (CHR ''0'') @ toString_digits v"
    by (simp only: hotp_code_def padStart0_def ts v_def[symmetric])
  have "length (hotp_code dg digits) = digits" using len by (simp add: code)
  moreover have "list_all is_digit (hotp_code dg digits)"
    using dig z by (auto simp: code list_all_iff)
  ultimately show ?thesis by simp
qed

lemma example_secret_bytes:
  "Secret_fromBase32 ''JBSWY3DPEHPK3PXP'' = Some [72, 101, 108, 108, 111, 33, 222, 173, 190, 239]"
  by code_simp

lemma example_secret_text:
  "Secret_base32 [72, 101, 108, 108, 111, 33, 222, 173, 190, 239] = ''JBSWY3DPEHPK3PXP''"
  by code_simp

text \<open>
  C1. For every secret that decodes as Base32, every \<open>digits\<close> in \<open>{6, 7, 8}\<close>, every
  supported algorithm and every positive period, at any clock reading and for any hash,
  \<open>generateTOTP\<close> returns a string of exactly \<open>digits\<close> characters, all of them decimal
  digits.
\<close>

theorem generateTOTP_digits:
  assumes "Secret_fromBase32 secret = Some key" and "digits \<in> {6, 7, 8}"
    and "algorithm \<in> set supported_algorithms" and "0 < period"
  shows "length (generateTOTP hmac now_ms secret algorithm digits period) = digits
    \<and> list_all is_digit (generateTOTP hmac now_ms secret algorithm digits period)"
proof -
  have d: "0 < digits" using assms(2) by auto
  have "generateTOTP hmac now_ms secret algorithm digits period =
    hotp_code (hmac algorithm key (counter_bytes (now_ms div 1000 div period))) digits"
    using assms by (simp add: generateTOTP_def totp_generate_def)
  then show ?thesis using hotp_code_shape[OF d] by simp
qed

theorem generateTOTP_digits_witness:
  "Secret_fromBase32 ''JBSWY3DPEHPK3PXP'' = Some [72, 101, 108, 108, 111, 33, 222, 173, 190, 239]
   \<and> (6::nat) \<in> {6, 7, 8} \<and> ''SHA1'' \<in> set supported_algorithms \<and> (0::int) < 30
   \<and> length (generateTOTP sample_hmac 1800000000000 ''JBSWY3DPEHPK3PXP'' ''SHA1'' 6 30) = 6
   \<and> list_all is_digit (generateTOTP sample_hmac 1800000000000 ''JBSWY3DPEHPK3PXP'' ''SHA1'' 6 30)"
proof -
  have a: "(6::nat) \<in> {6, 7, 8}" by simp
  have b: "''SHA1'' \<in> set supported_algorithms" by (simp add: supported_algorithms_def)
  have c: "(0::int) < 30" by simp
  show ?thesis
    using generateTOTP_digits[OF example_secret_bytes a b c, of sample_hmac 1800000000000]
      example_secret_bytes a b
    by simp
qed

text \<open>
  C3 (as the code has it). For every period greater than zero and every clock reading at
  or after the epoch, \<open>getTimeRemaining\<close> equals \<open>period - (floor(nowSeconds) mod period)\<close>
  and is an integer in the interval from 1 to \<open>period\<close>, both included: at the start of
  a window the whole period remains, and zero is never returned.
\<close>

theorem getTimeRemaining_range:
  assumes "0 < period" and "0 \<le> now_ms"
  shows "getTimeRemaining now_ms period = Some (period - (now_ms div 1000) mod period)
    \<and> 0 < period - (now_ms div 1000) mod period
    \<and> period - (now_ms div 1000) mod period \<le> period"
proof -
  have "0 \<le> now_ms div 1000" using assms(2) by (simp add: pos_imp_zdiv_nonneg_iff)
  then have "js_rem (now_ms div 1000) period = Some ((now_ms div 1000) mod period)"
    using assms(1) by (rule js_rem_nonneg)
  moreover have "0 \<le> (now_ms div 1000) mod period" "(now_ms div 1000) mod period < period"
    using assms(1) by simp_all
  ultimately show ?thesis by (simp add: getTimeRemaining_def)
qed

theorem getTimeRemaining_range_witness:
  "(0::int) < 30 \<and> (0::int) \<le> 1800000000017
   \<and> getTimeRemaining 1800000000017 30 = Some 30
   \<and> (0::int) < 30 - (1800000000017 div 1000) mod 30
   \<and> (30::int) - (1800000000017 div 1000) mod 30 \<le> 30"
  using getTimeRemaining_range[of 30 1800000000017] by simp

text \<open>
  The claim as the spec words it puts the value in the half-open interval \<open>[0, period)\<close>.
  At a clock reading on a window boundary the function returns the period itself.
\<close>

theorem getTimeRemaining_half_open_counterexample:
  "\<not> (\<exists>r. getTimeRemaining 1800000000000 30 = Some r \<and> 0 \<le> r \<and> r < 30)"
  by (simp add: getTimeRemaining_def js_rem_def)

text \<open>
  C6. For every secret string, algorithm name, digits and period, at any clock reading and
  for any hash, \<open>generateTOTP\<close> returns a string: either the library call succeeds and
  its code is returned, or it fails, whatever the failure, and the result is the sentinel
  \<open>ERROR\<close>. No failure of the library reaches the caller.
\<close>

theorem generateTOTP_never_throws:
  "(\<exists>code. totp_generate hmac now_ms secret algorithm digits period = Inr code
      \<and> generateTOTP hmac now_ms secret algorithm digits period = code)
   \<or> ((\<exists>e. totp_generate hmac now_ms secret algorithm digits period = Inl e)
      \<and> generateTOTP hmac now_ms secret algorithm digits period = ''ERROR'')"
  by (cases "totp_generate hmac now_ms secret algorithm digits period")
     (simp_all add: generateTOTP_def)

section \<open>Properties of the account storage\<close>

lemma keys_distinct:
  "ACCOUNTS_STORAGE_KEY \<noteq> ENCRYPTED_STORAGE_ENABLED_KEY"
  "ENCRYPTION_KEY_STORAGE_KEY \<noteq> ENCRYPTED_STORAGE_ENABLED_KEY"
  "ACCOUNTS_STORAGE_KEY \<noteq> ENCRYPTION_KEY_STORAGE_KEY"
  by (simp_all add: ACCOUNTS_STORAGE_KEY_def ENCRYPTED_STORAGE_ENABLED_KEY_def ENCRYPTION_KEY_STORAGE_KEY_def)

lemma typeof_string_iff: "(typeof v = ''string'') = is_string v"
  by (simp add: typeof_def is_string_def split: option.splits json.splits)

lemma valid_account_iff:
  "valid_account a = (is_string (get_prop a ''name'') \<and> is_string (get_prop a ''issuer'') \<and> is_string (get_prop a ''secret''))"
proof (cases a)
  case (JObj kvs)
  then show ?thesis by (simp add: valid_account_def typeof_string_iff truthy_def)
qed (simp_all add: valid_account_def typeof_string_iff get_prop_def is_string_def)

lemma getEncryptionKey_flag:
  "getEncryptionKey P st = (k, st') \<Longrightarrow> isEncryptedStorageEnabled st' = isEncryptedStorageEnabled st"
  using keys_distinct
  by (auto simp: getEncryptionKey_def generateEncryptionKey_def isEncryptedStorageEnabled_def Let_def
      split: if_splits option.splits)

lemma filter_valid: "filter valid_account xs = filter has_string_fields xs"
  by (rule filter_cong) (simp_all add: valid_account_iff has_string_fields_def)

lemma importAccounts_some:
  assumes "JSON_parse P b = Some data" and "accounts_array data = Some xs"
  shows "importAccounts P b st = (True, saveAccounts P (Some (JArr (filter has_string_fields xs))) st)"
proof -
  obtain kvs where d: "data = JObj kvs" using assms(2)
    by (cases data) (simp_all add: accounts_array_def)
  have "get_prop data ''accounts'' = Some (JArr xs)"
    using assms(2) d by (simp add: accounts_array_def get_prop_def split: option.splits json.splits)
  then show ?thesis using assms(1) d by (simp add: importAccounts_def filter_valid)
qed

lemma importAccounts_none:
  assumes "JSON_parse P b = None \<or> (\<exists>data. JSON_parse P b = Some data \<and> accounts_array data = None)"
  shows "importAccounts P b st = (False, st)"
proof (cases "JSON_parse P b")
  case None
  then show ?thesis by (simp add: importAccounts_def)
next
  case (Some data)
  then have n: "accounts_array data = None" using assms by auto
  show ?thesis
  proof (cases data)
    case (JObj kvs)
    then show ?thesis using Some n
      by (simp add: importAccounts_def accounts_array_def get_prop_def split: option.splits json.splits)
  qed (simp_all add: Some importAccounts_def get_prop_def)
qed

lemma saveAccounts_plain:
  assumes "\<not> isEncryptedStorageEnabled st"
  shows "saveAccounts P (Some (JArr xs)) st =
     st\<lparr>async_items := (async_items st)(ACCOUNTS_STORAGE_KEY \<mapsto> JSON_stringify P (JArr xs))\<rparr>"
  using assms by (simp add: saveAccounts_def truthy_def)

text \<open>
  C10. For every backup string that parses as JSON with an \<open>accounts\<close> array,
  \<open>importAccounts\<close> returns true and saves exactly the entries of the array whose \<open>name\<close>,
  \<open>issuer\<close> and \<open>secret\<close> fields are strings: with plain storage the stored collection
  becomes the serialisation of those entries, whatever was stored before, and their
  \<open>algorithm\<close>, \<open>digits\<close> and \<open>period\<close> are not looked at. When the input is not JSON or
  has no \<open>accounts\<close> array, \<open>importAccounts\<close> returns false and the storage is unchanged.
\<close>

theorem importAccounts_replaces:
  "(JSON_parse P b = Some data \<and> accounts_array data = Some xs \<longrightarrow>
      importAccounts P b st = (True, saveAccounts P (Some (JArr (filter has_string_fields xs))) st)
      \<and> (\<not> isEncryptedStorageEnabled st \<longrightarrow>
           snd (importAccounts P b st) =
             st\<lparr>async_items := (async_items st)(ACCOUNTS_STORAGE_KEY \<mapsto>
                   JSON_stringify P (JArr (filter has_string_fields xs)))\<rparr>))
   \<and> (JSON_parse P b = None \<or> (\<exists>d. JSON_parse P b = Some d \<and> accounts_array d = None) \<longrightarrow>
      importAccounts P b st = (False, st))"
  using importAccounts_some[of P b data xs st] importAccounts_none[of P b st] saveAccounts_plain[of st P]
  by auto

lemma sample_backup_parses: "JSON_parse ref_platform sample_backup = Some sample_data"
  by code_simp
lemma sample_data_accounts: "accounts_array sample_data = Some sample_entries"
  by code_simp
lemma sample_entries_kept: "filter has_string_fields sample_entries = [sample_entry]"
  by code_simp
lemma sample_entry_text: "JSON_stringify ref_platform (JArr [sample_entry]) = ''[{\"name\":\"alice\",\"issuer\":\"Example\",\"secret\":\"abc def\",\"algorithm\":\"MD5\",\"digits\":-1,\"period\":0}]''"
  by code_simp
lemma plain_storage_plain: "\<not> isEncryptedStorageEnabled plain_storage"
  by code_simp
lemma not_json_rejected: "JSON_parse ref_platform ''not json'' = None"
  by code_simp
theorem importAccounts_replaces_witness:
  "JSON_parse ref_platform sample_backup = Some sample_data
   \<and> accounts_array sample_data = Some sample_entries
   \<and> \<not> isEncryptedStorageEnabled plain_storage
   \<and> fst (importAccounts ref_platform sample_backup plain_storage) = True
   \<and> async_items (snd (importAccounts ref_platform sample_backup plain_storage)) ACCOUNTS_STORAGE_KEY =
       Some ''[{\"name\":\"alice\",\"issuer\":\"Example\",\"secret\":\"abc def\",\"algorithm\":\"MD5\",\"digits\":-1,\"period\":0}]''
   \<and> JSON_parse ref_platform ''not json'' = None
   \<and> importAccounts ref_platform ''not json'' plain_storage = (False, plain_storage)"
proof -
  note t = importAccounts_replaces[of ref_platform sample_backup sample_data sample_entries plain_storage]
  have i: "importAccounts ref_platform sample_backup plain_storage =
      (True, saveAccounts ref_platform (Some (JArr (filter has_string_fields sample_entries))) plain_storage)"
    using t sample_backup_parses sample_data_accounts by blast
  have s: "snd (importAccounts ref_platform sample_backup plain_storage) =
      plain_storage\<lparr>async_items := (async_items plain_storage)(ACCOUNTS_STORAGE_KEY \<mapsto>
          JSON_stringify ref_platform (JArr (filter has_string_fields sample_entries)))\<rparr>"
    using t sample_backup_parses sample_data_accounts plain_storage_plain by blast
  have a: "async_items (snd (importAccounts ref_platform sample_backup plain_storage)) ACCOUNTS_STORAGE_KEY =
       Some ''[{\"name\":\"alice\",\"issuer\":\"Example\",\"secret\":\"abc def\",\"algorithm\":\"MD5\",\"digits\":-1,\"period\":0}]''"
    by (simp only: s sample_entries_kept sample_entry_text) simp
  have n: "importAccounts ref_platform ''not json'' plain_storage = (False, plain_storage)"
    using importAccounts_replaces[of ref_platform "''not json''" sample_data sample_entries plain_storage] not_json_rejected by blast
  show ?thesis using i a n sample_backup_parses sample_data_accounts plain_storage_plain not_json_rejected by simp
qed

lemma saveAccounts_encrypted:
  assumes enc: "isEncryptedStorageEnabled st"
    and key: "getEncryptionKey P st = (key, sta)"
  shows "saveAccounts P (Some (JArr accounts)) st =
     sta\<lparr>random_draws := Suc (random_draws sta),
         async_items := (async_items sta)(ACCOUNTS_STORAGE_KEY \<mapsto>
           JSON_stringify P (JObj [(''iv'', JStr (hex_string (getRandomBytes P (random_draws sta) 16))),
             (''data'', JStr (digestSHA256 P (JSON_stringify P (JArr accounts) @ key
                 @ hex_string (getRandomBytes P (random_draws sta) 16))))]))\<rparr>"
  using enc key by (simp add: saveAccounts_def truthy_def encryptData_def Let_def)

lemma decryptData_envelope:
  assumes "JSON_parse P blob = Some (JObj [(''iv'', JStr iv), (''data'', JStr h)])"
  shows "fst (decryptData P blob st) = Some (JStr h)"
  using assms by (simp add: decryptData_def get_prop_def Let_def split: prod.splits)

text \<open>
  C4. With encrypted storage enabled, saving any account list and reading it back does
  not recover it. What is stored is an envelope around a digest of the data;
  \<open>decryptData\<close> returns that digest as it is, not the data; the digest is not JSON, so
  parsing it fails, the failure is caught, and \<open>getAccounts\<close> returns the empty list.
  The two hypotheses on the platform say that \<open>JSON.parse\<close> reads back the envelope
  \<open>JSON.stringify\<close> wrote, and that it rejects the digest text.
\<close>

theorem encrypted_accounts_not_recovered:
  assumes enc: "isEncryptedStorageEnabled st"
    and key: "getEncryptionKey P st = (key, sta)"
    and iv: "iv = hex_string (getRandomBytes P (random_draws sta) 16)"
    and h: "h = digestSHA256 P (JSON_stringify P (JArr accounts) @ key @ iv)"
    and blob: "blob = JSON_stringify P (JObj [(''iv'', JStr iv), (''data'', JStr h)])"
    and rt: "JSON_parse P blob = Some (JObj [(''iv'', JStr iv), (''data'', JStr h)])"
    and nj: "JSON_parse P h = None"
    and st1: "st1 = saveAccounts P (Some (JArr accounts)) st"
  shows "async_items st1 ACCOUNTS_STORAGE_KEY = Some blob
    \<and> fst (decryptData P blob st1) = Some (JStr h)
    \<and> fst (getAccounts P st1) = JArr []
    \<and> (accounts \<noteq> [] \<longrightarrow> fst (getAccounts P st1) \<noteq> JArr accounts)"
proof -
  have s1: "st1 = sta\<lparr>random_draws := Suc (random_draws sta),
         async_items := (async_items sta)(ACCOUNTS_STORAGE_KEY \<mapsto> blob)\<rparr>"
    unfolding st1 blob h iv by (rule saveAccounts_encrypted[OF enc key])
  then have stored: "async_items st1 ACCOUNTS_STORAGE_KEY = Some blob" by simp
  have "isEncryptedStorageEnabled sta" using getEncryptionKey_flag[OF key] enc by simp
  then have e1: "isEncryptedStorageEnabled st1"
    using s1 keys_distinct by (simp add: isEncryptedStorageEnabled_def)
  have dec: "fst (decryptData P blob st1) = Some (JStr h)" by (rule decryptData_envelope[OF rt])
  have get: "fst (getAccounts P st1) = JArr []"
  proof (cases "blob = []")
    case True
    then show ?thesis using stored by (simp add: getAccounts_def)
  next
    case False
    obtain d st2 where d: "decryptData P blob st1 = (d, st2)" by (cases "decryptData P blob st1")
    then have "d = Some (JStr h)" using dec by simp
    then show ?thesis using stored False e1 d nj
      by (simp add: getAccounts_def js_toString_opt_def)
  qed
  show ?thesis using stored dec get by simp
qed

lemma encrypted_storage_enabled: "isEncryptedStorageEnabled encrypted_storage" by code_simp

lemma sample_envelope_read_back: "JSON_parse ref_platform
    (JSON_stringify ref_platform (JObj [(''iv'', JStr (hex_string (getRandomBytes ref_platform (random_draws (snd (getEncryptionKey ref_platform encrypted_storage))) 16))),
       (''data'', JStr (digestSHA256 ref_platform (JSON_stringify ref_platform (JArr [sample_entry]) @ fst (getEncryptionKey ref_platform encrypted_storage) @ hex_string (getRandomBytes ref_platform (random_draws (snd (getEncryptionKey ref_platform encrypted_storage))) 16))))]))
   = Some (JObj [(''iv'', JStr (hex_string (getRandomBytes ref_platform (random_draws (snd (getEncryptionKey ref_platform encrypted_storage))) 16))),
       (''data'', JStr (digestSHA256 ref_platform (JSON_stringify ref_platform (JArr [sample_entry]) @ fst (getEncryptionKey ref_platform encrypted_storage) @ hex_string (getRandomBytes ref_platform (random_draws (snd (getEncryptionKey ref_platform encrypted_storage))) 16))))])"
  by code_simp

lemma sample_digest_not_json: "JSON_parse ref_platform (digestSHA256 ref_platform (JSON_stringify ref_platform (JArr [sample_entry]) @ fst (getEncryptionKey ref_platform encrypted_storage) @ hex_string (getRandomBytes ref_platform (random_draws (snd (getEncryptionKey ref_platform encrypted_storage))) 16))) = None"
  by code_simp

theorem encrypted_accounts_not_recovered_witness:
  "isEncryptedStorageEnabled encrypted_storage
   \<and> fst (getAccounts ref_platform (saveAccounts ref_platform (Some (JArr [sample_entry])) encrypted_storage)) = JArr []
   \<and> fst (getAccounts ref_platform (saveAccounts ref_platform (Some (JArr [sample_entry])) encrypted_storage)) \<noteq> JArr [sample_entry]"
  using encrypted_accounts_not_recovered[OF encrypted_storage_enabled prod.collapse[symmetric] refl refl refl
      sample_envelope_read_back sample_digest_not_json refl]
  by (simp add: encrypted_storage_enabled)

section \<open>Properties of the parser\<close>

text \<open>\<open>split\<close> returns at least one piece, so the last piece exists.\<close>

lemma split_go_nonempty: "split_go sep k cur s \<noteq> []"
  by (induction s arbitrary: k cur) auto

lemma split_str_nonempty: "split_str sep s \<noteq> []"
  by (simp add: split_str_def split_go_nonempty)


lemma startsWith_append: "startsWith a p \<Longrightarrow> startsWith (a @ b) p"
proof -
  assume h: "startsWith a p"
  then have "length (take (length p) a) = length p" unfolding startsWith_def by simp
  then have "length p \<le> length a" by simp
  then show ?thesis using h by (simp add: startsWith_def)
qed

lemma str_includes_append: "str_includes a p \<Longrightarrow> str_includes (a @ b) p"
proof (induction a)
  case Nil
  then show ?case by (cases b) (simp_all add: startsWith_def)
next
  case (Cons c cs)
  then show ?case using startsWith_append[of "c # cs" p b] by auto
qed

lemma handler_ok: "parse_body P url = Inr c \<Longrightarrow> parseOTPAuthURL (Suc depth) P url = Some (Inr c)"
  by simp

lemma handler_invalid_format:
  "parse_body P url = Inl (''Invalid OTP Auth URL format'', n) \<Longrightarrow>
   parseOTPAuthURL (Suc depth) P url = Some (Inl InvalidFormat)"
proof -
  have "str_includes ''Invalid OTP Auth URL format'' ''Invalid OTP Auth URL format''" by code_simp
  then show "parse_body P url = Inl (''Invalid OTP Auth URL format'', n) \<Longrightarrow> ?thesis" by simp
qed

lemma handler_missing_secret:
  "parse_body P url = Inl (''Missing secret key'', n) \<Longrightarrow>
   parseOTPAuthURL (Suc depth) P url = Some (Inl MissingSecret)"
proof -
  have "\<not> str_includes ''Missing secret key'' ''Invalid OTP Auth URL format''" by code_simp
  moreover have "str_includes ''Missing secret key'' ''Missing secret key''" by code_simp
  ultimately show "parse_body P url = Inl (''Missing secret key'', n) \<Longrightarrow> ?thesis" by simp
qed

lemma synthesized_has_type:
  "add_type_otpauth (''otpauth://totp/Unknown?secret='' @ x) = ''otpauth://totp/Unknown?secret='' @ x"
proof -
  have "str_includes (toLowerCase ''otpauth://totp/Unknown?secret='') ''/totp/''" by code_simp
  then have "str_includes (toLowerCase (''otpauth://totp/Unknown?secret='' @ x)) ''/totp/''"
    unfolding toLowerCase_def map_append by (rule str_includes_append)
  then show ?thesis by (simp add: add_type_otpauth_def)
qed

lemma lower_case_kept:
  "list_all (\<lambda>c. toUpperCase_char c \<in> set base32_alphabet) ''abcdefghijklmnopqrstuvwxyz''"
  by code_simp

lemma kept_characters: "(toUpperCase_char c \<in> set base32_alphabet) = (c \<in> set base32_letters)"
proof (cases "c \<in> set ''abcdefghijklmnopqrstuvwxyz''")
  case True
  then have "toUpperCase_char c \<in> set base32_alphabet"
    using lower_case_kept by (simp only: list_all_iff)
  moreover have "c \<in> set base32_letters"
    using True by (simp add: base32_letters_def)
  ultimately show ?thesis by simp
next
  case False
  have "length ''abcdefghijklmnopqrstuvwxyz'' = length ''ABCDEFGHIJKLMNOPQRSTUVWXYZ''" by simp
  then have "map_of (zip ''abcdefghijklmnopqrstuvwxyz'' ''ABCDEFGHIJKLMNOPQRSTUVWXYZ'') c = None"
    using False map_of_zip_is_None[of "''abcdefghijklmnopqrstuvwxyz''" "''ABCDEFGHIJKLMNOPQRSTUVWXYZ''" c]
    by blast
  then have u: "toUpperCase_char c = c" by (simp only: toUpperCase_char_def option.case)
  have app: "base32_letters = base32_alphabet @ ''abcdefghijklmnopqrstuvwxyz''"
    by (simp add: base32_letters_def base32_alphabet_def)
  have l: "set base32_letters = set base32_alphabet \<union> set ''abcdefghijklmnopqrstuvwxyz''"
    by (simp only: app set_append)
  show ?thesis unfolding u l using False by blast
qed

lemma cleanSecret_keeps: "cleanSecret n = filter (\<lambda>c. c \<in> set base32_letters) n"
  by (simp only: cleanSecret_def kept_characters)

text \<open>
  C8. For every input that reaches the bare-secret fallback (no migration prefix, no
  embedded otpauth URI, no secret from the JSON attempt and none from the query-string
  attempt): what is kept of the input is its characters that belong to the Base32
  alphabet, letters in either case, in their order, every other character being
  stripped; if at least 16 characters remain the canonical URI is
  \<open>otpauth://totp/Unknown?secret=\<close> followed by them, and that URI goes to the URI parser
  unchanged; otherwise the parse fails with \<open>InvalidFormat\<close>. In particular \<open>not a url\<close>
  fails with \<open>InvalidFormat\<close>.
\<close>

theorem bare_secret_fallback:
  assumes "\<not> startsWith (trim url) ''otpauth-migration://''"
    and "match_otpauth (trim url) = None"
    and "json_stage P (trim url) = Inl jsonError"
    and "query_stage (trim url) = Inl queryError"
  shows "cleanSecret (trim url) = filter (\<lambda>c. c \<in> set base32_letters) (trim url)
       \<and> (16 \<le> length (cleanSecret (trim url)) \<longrightarrow>
            resolve_url P (trim url) = Inr (''otpauth://totp/Unknown?secret='' @ cleanSecret (trim url))
          \<and> parse_body P url =
              parse_canonical P (trim url) (''otpauth://totp/Unknown?secret='' @ cleanSecret (trim url))
          \<and> add_type_otpauth (''otpauth://totp/Unknown?secret='' @ cleanSecret (trim url)) =
              ''otpauth://totp/Unknown?secret='' @ cleanSecret (trim url))
       \<and> (length (cleanSecret (trim url)) < 16 \<longrightarrow>
            parseOTPAuthURL (Suc depth) P url = Some (Inl InvalidFormat))"
proof -
  have r: "resolve_url P (trim url) = bare_stage (trim url)"
    using assms by (simp add: resolve_url_def)
  have long: "16 \<le> length (cleanSecret (trim url)) \<Longrightarrow>
      resolve_url P (trim url) = Inr (''otpauth://totp/Unknown?secret='' @ cleanSecret (trim url))"
    by (simp add: r bare_stage_def)
  have short: "length (cleanSecret (trim url)) < 16 \<Longrightarrow>
      parse_body P url = Inl (''Invalid OTP Auth URL format'', trim url)"
    using assms(1) by (simp add: parse_body_def r bare_stage_def Let_def)
  have body: "16 \<le> length (cleanSecret (trim url)) \<Longrightarrow> parse_body P url =
      parse_canonical P (trim url) (''otpauth://totp/Unknown?secret='' @ cleanSecret (trim url))"
    using assms(1) long by (simp add: parse_body_def Let_def)
  show ?thesis
    using long body synthesized_has_type handler_invalid_format[OF short] cleanSecret_keeps[of "trim url"]
    by blast
qed

lemma not_a_url_facts:
  "\<not> startsWith (trim ''not a url'') ''otpauth-migration://''"
  "match_otpauth (trim ''not a url'') = None"
  "json_stage ref_platform (trim ''not a url'') = Inl ''JSON.parse''"
  "query_stage (trim ''not a url'') = Inl ''No secret found in parameters''"
  "length (cleanSecret (trim ''not a url'')) < 16"
  by code_simp+

lemma bare_secret_facts:
  "\<not> startsWith (trim bare_secret_text) ''otpauth-migration://''"
  "match_otpauth (trim bare_secret_text) = None"
  "json_stage ref_platform (trim bare_secret_text) = Inl ''JSON.parse''"
  "query_stage (trim bare_secret_text) = Inl ''No secret found in parameters''"
  "cleanSecret (trim bare_secret_text) = ''JBSWY3DPehpk3PXP''"
  "parseOTPAuthURL (Suc 0) ref_platform bare_secret_text = Some (Inr bare_secret_credential)"
  by code_simp+

theorem bare_secret_fallback_witness:
  "\<not> startsWith (trim ''not a url'') ''otpauth-migration://''
   \<and> match_otpauth (trim ''not a url'') = None
   \<and> json_stage ref_platform (trim ''not a url'') = Inl ''JSON.parse''
   \<and> query_stage (trim ''not a url'') = Inl ''No secret found in parameters''
   \<and> length (cleanSecret (trim ''not a url'')) < 16
   \<and> parseOTPAuthURL (Suc 0) ref_platform ''not a url'' = Some (Inl InvalidFormat)
   \<and> \<not> startsWith (trim bare_secret_text) ''otpauth-migration://''
   \<and> match_otpauth (trim bare_secret_text) = None
   \<and> json_stage ref_platform (trim bare_secret_text) = Inl ''JSON.parse''
   \<and> query_stage (trim bare_secret_text) = Inl ''No secret found in parameters''
   \<and> filter (\<lambda>c. c \<in> set base32_letters) (trim bare_secret_text) = ''JBSWY3DPehpk3PXP''
   \<and> cleanSecret (trim bare_secret_text) = ''JBSWY3DPehpk3PXP''
   \<and> resolve_url ref_platform (trim bare_secret_text) = Inr ''otpauth://totp/Unknown?secret=JBSWY3DPehpk3PXP''
   \<and> parse_body ref_platform bare_secret_text =
        parse_canonical ref_platform (trim bare_secret_text) ''otpauth://totp/Unknown?secret=JBSWY3DPehpk3PXP''
   \<and> parseOTPAuthURL (Suc 0) ref_platform bare_secret_text = Some (Inr bare_secret_credential)"
proof -
  have short: "parseOTPAuthURL (Suc 0) ref_platform ''not a url'' = Some (Inl InvalidFormat)"
    using bare_secret_fallback[OF not_a_url_facts(1-4), of 0] not_a_url_facts(5) by blast
  have len: "16 \<le> length (cleanSecret (trim bare_secret_text))"
    by (simp add: bare_secret_facts(5))
  note long = bare_secret_fallback[OF bare_secret_facts(1-4), of 0]
  have kept: "filter (\<lambda>c. c \<in> set base32_letters) (trim bare_secret_text) = ''JBSWY3DPehpk3PXP''"
    using long bare_secret_facts(5) by simp
  have canon: "resolve_url ref_platform (trim bare_secret_text) =
       Inr (''otpauth://totp/Unknown?secret='' @ cleanSecret (trim bare_secret_text))"
    and body: "parse_body ref_platform bare_secret_text =
       parse_canonical ref_platform (trim bare_secret_text)
         (''otpauth://totp/Unknown?secret='' @ cleanSecret (trim bare_secret_text))"
    using long len by blast+
  have canon': "resolve_url ref_platform (trim bare_secret_text) =
       Inr ''otpauth://totp/Unknown?secret=JBSWY3DPehpk3PXP''"
    using canon by (simp add: bare_secret_facts(5))
  have body': "parse_body ref_platform bare_secret_text =
       parse_canonical ref_platform (trim bare_secret_text) ''otpauth://totp/Unknown?secret=JBSWY3DPehpk3PXP''"
    using body by (simp add: bare_secret_facts(5))
  show ?thesis
    using short kept canon' body' not_a_url_facts bare_secret_facts by blast
qed

lemma example_url_facts:
  "trim example_url = example_url"
  "\<not> startsWith example_url ''otpauth-migration://''"
  "match_otpauth example_url = Some example_url"
  "add_type_normalized example_url = example_url"
  "add_type_otpauth example_url = example_url"
  by code_simp+

lemma example_labels:
  "split_label ''Example:alice@example.com'' ''Example'' = (''alice@example.com'', ''Example'')"
  "split_label ''alice@example.com'' ''Example'' = (''alice@example.com'', ''Example'')"
  by code_simp+

lemma lower_totp: "toLowerCase ''totp'' = ''totp''"
  by code_simp

text \<open>
  C2. The parse of
  \<open>otpauth://totp/Example:alice@example.com?secret=JBSWY3DPEHPK3PXP&issuer=Example\<close>
  succeeds with name \<open>alice@example.com\<close>, issuer \<open>Example\<close>, secret \<open>JBSWY3DPEHPK3PXP\<close>,
  algorithm \<open>SHA1\<close>, digits 6 and period 30, whenever the URI library delivers the
  components of that URI: type absent or \<open>totp\<close>, the label with or without its issuer
  prefix, the issuer parameter, the decoded secret, and algorithm, digits and period
  either absent or at their defaults.
\<close>

theorem parse_example_uri:
  assumes up: "URI_parse P example_url = Inr p"
    and ty: "p_type p = [] \<or> p_type p = ''totp''"
    and key: "p_secret p = Some key"
    and b32: "Secret_base32 key = ''JBSWY3DPEHPK3PXP''"
    and lb: "p_label p = ''Example:alice@example.com'' \<or> p_label p = ''alice@example.com''"
    and iss: "p_issuer p = ''Example''"
    and alg: "p_algorithm p = [] \<or> p_algorithm p = ''SHA1''"
    and dg: "p_digits p = 0 \<or> p_digits p = 6"
    and pe: "p_period p = 0 \<or> p_period p = 30"
  shows "parseOTPAuthURL (Suc depth) P example_url = Some (Inr example_credential)"
proof -
  have t: "toLowerCase (otp_type_of p) = ''totp''"
    using ty lower_totp by (auto simp: otp_type_of_def)
  have rs: "resolve_secret P example_url p = Inr key"
    by (simp add: resolve_secret_def key)
  have sl: "split_label (p_label p) ''Example'' = (''alice@example.com'', ''Example'')"
    using lb example_labels by auto
  have bc: "build_credential P example_url p key = example_credential"
    using alg dg pe
    by (auto simp: build_credential_def issuer_from_url_def iss sl account_from_path_def b32
        example_credential_def)
  have "parse_canonical P example_url example_url = Inr example_credential"
    by (simp add: parse_canonical_def example_url_facts up t rs bc)
  moreover have "resolve_url P example_url = Inr example_url"
    by (simp add: resolve_url_def example_url_facts)
  ultimately have "parse_body P example_url = Inr example_credential"
    by (simp add: parse_body_def example_url_facts)
  then show ?thesis by (rule handler_ok)
qed

lemma example_parsed_ref: "URI_parse ref_platform example_url = Inr example_parsed"
  by code_simp

theorem parse_example_uri_witness:
  "URI_parse ref_platform example_url = Inr example_parsed
   \<and> parseOTPAuthURL (Suc 0) ref_platform example_url = Some (Inr example_credential)"
  using parse_example_uri[OF example_parsed_ref, of "[72, 101, 108, 108, 111, 33, 222, 173, 190, 239]" 0]
    example_parsed_ref example_secret_text
  by (simp add: example_parsed_def)

text \<open>
  The check the parser makes itself: when the URI library returns a structure without a
  secret, and the \<open>secret\<close> parameter read again from the raw URL is missing or empty,
  the parse fails with \<open>MissingSecret\<close>.
\<close>

lemma parse_missing_secret:
  assumes nm: "\<not> startsWith (trim url) ''otpauth-migration://''"
    and ru: "resolve_url P (trim url) = Inr u0"
    and up: "URI_parse P (add_type_otpauth u0) = Inr p"
    and ty: "toLowerCase (otp_type_of p) = ''totp'' \<or> toLowerCase (otp_type_of p) = ''hotp''"
    and ns: "p_secret p = None"
    and un: "URL_new P (add_type_normalized (trim url)) = Inr urlObj"
    and nq: "\<not> str_truthy (searchParams_get urlObj ''secret'')"
  shows "parseOTPAuthURL (Suc depth) P url = Some (Inl MissingSecret)"
proof -
  have rs: "resolve_secret P (add_type_normalized (trim url)) p = Inl ''Missing secret key''"
    using nq by (simp add: resolve_secret_def ns un str_truthy_def split: option.splits)
  have "parse_canonical P (trim url) u0 = Inl (''Missing secret key'', add_type_normalized (trim url))"
    using ty by (auto simp: parse_canonical_def up rs)
  then have "parse_body P url = Inl (''Missing secret key'', add_type_normalized (trim url))"
    using nm ru by (simp add: parse_body_def)
  then show ?thesis by (rule handler_missing_secret)
qed

text \<open>
  An error of the URI library whose message has none of the four phrases the handler
  looks for is rethrown as it is.
\<close>

lemma library_error_rethrown:
  assumes "\<not> startsWith (trim url) ''otpauth-migration://''"
    and "resolve_url P (trim url) = Inr u0"
    and "URI_parse P (add_type_otpauth u0) = Inl m"
    and "\<not> str_includes m ''Invalid OTP Auth URL format''"
    and "\<not> str_includes m ''Missing secret key''"
    and "\<not> str_includes m ''Unsupported OTP type''"
    and "\<not> str_includes m ''Missing OTP type''"
  shows "parseOTPAuthURL (Suc depth) P url = Some (Inl m)"
proof -
  have "parse_canonical P (trim url) u0 = Inl (m, add_type_normalized (trim url))"
    using assms(3) by (simp add: parse_canonical_def)
  then have "parse_body P url = Inl (m, add_type_normalized (trim url))"
    using assms(1,2) by (simp add: parse_body_def)
  then show ?thesis using assms(4-7) by simp
qed

lemma empty_secret_url_facts:
  "trim empty_secret_url = empty_secret_url"
  "\<not> startsWith empty_secret_url ''otpauth-migration://''"
  "match_otpauth empty_secret_url = Some empty_secret_url"
  "add_type_otpauth empty_secret_url = empty_secret_url"
  by code_simp+

text \<open>
  C7 (what the code does on the input of the claim). The canonical URI of
  \<open>otpauth://totp/Unknown?secret=\<close> is that text itself, and it goes to the URI library
  before the parser looks for the secret. When the library throws on it, and its message
  has none of the four phrases the handler looks for, the parse fails with the library's
  message, unchanged: the check that gives \<open>MissingSecret\<close> is not reached. The library
  of the program throws on an empty secret, so the parse of this input does not fail
  with \<open>MissingSecret\<close>.
\<close>

theorem empty_secret_rethrown:
  assumes "URI_parse P empty_secret_url = Inl m"
    and "\<not> str_includes m ''Invalid OTP Auth URL format''"
    and "\<not> str_includes m ''Missing secret key''"
    and "\<not> str_includes m ''Unsupported OTP type''"
    and "\<not> str_includes m ''Missing OTP type''"
  shows "parseOTPAuthURL (Suc depth) P empty_secret_url = Some (Inl m)"
proof -
  have a: "\<not> startsWith (trim empty_secret_url) ''otpauth-migration://''"
    by (simp add: empty_secret_url_facts)
  have b: "resolve_url P (trim empty_secret_url) = Inr empty_secret_url"
    by (simp add: resolve_url_def empty_secret_url_facts)
  have c: "URI_parse P (add_type_otpauth empty_secret_url) = Inl m"
    using assms(1) by (simp add: empty_secret_url_facts)
  show ?thesis by (rule library_error_rethrown[OF a b c assms(2-5)])
qed

lemma strict_facts:
  "URI_parse strict_platform empty_secret_url = Inl EmptySecretMessage"
  "\<not> str_includes EmptySecretMessage ''Invalid OTP Auth URL format''"
  "\<not> str_includes EmptySecretMessage ''Missing secret key''"
  "\<not> str_includes EmptySecretMessage ''Unsupported OTP type''"
  "\<not> str_includes EmptySecretMessage ''Missing OTP type''"
  "EmptySecretMessage \<noteq> MissingSecret"
  by code_simp+

theorem empty_secret_rethrown_witness:
  "URI_parse strict_platform empty_secret_url = Inl EmptySecretMessage
   \<and> \<not> str_includes EmptySecretMessage ''Invalid OTP Auth URL format''
   \<and> \<not> str_includes EmptySecretMessage ''Missing secret key''
   \<and> \<not> str_includes EmptySecretMessage ''Unsupported OTP type''
   \<and> \<not> str_includes EmptySecretMessage ''Missing OTP type''
   \<and> parseOTPAuthURL (Suc 0) strict_platform empty_secret_url = Some (Inl EmptySecretMessage)
   \<and> parseOTPAuthURL (Suc 0) strict_platform empty_secret_url \<noteq> Some (Inl MissingSecret)"
  using empty_secret_rethrown[OF strict_facts(1-5), of 0] strict_facts by simp

text \<open>
  With a URI parser that returns the structure without a secret instead, the same input
  reaches the parser's own check.
\<close>

lemma empty_secret_facts:
  "\<not> startsWith (trim empty_secret_url) ''otpauth-migration://''"
  "resolve_url ref_platform (trim empty_secret_url) = Inr empty_secret_url"
  "URI_parse ref_platform (add_type_otpauth empty_secret_url) = Inr empty_secret_parsed"
  "URL_new ref_platform (add_type_normalized (trim empty_secret_url)) =
     Inr \<lparr>url_pathname = ''/Unknown'', url_search = ''?secret=''\<rparr>"
  "\<not> str_truthy (searchParams_get \<lparr>url_pathname = ''/Unknown'', url_search = ''?secret=''\<rparr> ''secret'')"
  by code_simp+

lemma empty_secret_checked:
  "parseOTPAuthURL (Suc 0) ref_platform empty_secret_url = Some (Inl MissingSecret)"
proof -
  have ty: "toLowerCase (otp_type_of empty_secret_parsed) = ''totp''
    \<or> toLowerCase (otp_type_of empty_secret_parsed) = ''hotp''"
    by (simp add: otp_type_of_def empty_secret_parsed_def lower_totp)
  have ns: "p_secret empty_secret_parsed = None" by (simp add: empty_secret_parsed_def)
  show ?thesis
    using parse_missing_secret[OF empty_secret_facts(1) empty_secret_facts(2) empty_secret_facts(3) ty ns
        empty_secret_facts(4) empty_secret_facts(5), of 0]
    by blast
qed



















lemma foldl_bits_bound:
  "foldl (\<lambda>acc b. 2 * acc + (if b then 1 else 0)) (a::nat) bs < (a + 1) * 2 ^ length bs"
proof (induction bs arbitrary: a)
  case Nil
  then show ?case by simp
next
  case (Cons b bs)
  have "foldl (\<lambda>acc b. 2 * acc + (if b then 1 else 0)) (2 * a + (if b then 1 else 0)) bs
      < (2 * a + (if b then 1 else 0) + 1) * 2 ^ length bs"
    by (rule Cons.IH)
  also have "\<dots> \<le> (2 * a + 2) * 2 ^ length bs" by simp
  also have "\<dots> = (a + 1) * 2 ^ length (b # bs)" by simp
  finally show ?case by simp
qed

lemma nat_of_bits_bound: "nat_of_bits bs < 2 ^ length bs"
  using foldl_bits_bound[of 0 bs] by (simp add: nat_of_bits_def)

lemma symbol_in_alphabet: "length bs = 5 \<Longrightarrow> base32_alphabet ! nat_of_bits bs \<in> set base32_alphabet"
proof -
  assume "length bs = 5"
  then have "nat_of_bits bs < 32" using nat_of_bits_bound[of bs] by simp
  moreover have "length base32_alphabet = 32" by (simp add: base32_alphabet_def)
  ultimately show ?thesis by simp
qed

lemma symbols_in_alphabet: "set (symbols_of_bits bs) \<subseteq> set base32_alphabet"
proof (induction bs rule: symbols_of_bits.induct)
  case 1
  then show ?case by simp
next
  case (2 b0 b1 b2 b3 b4 rest)
  have "base32_alphabet ! nat_of_bits [b0, b1, b2, b3, b4] \<in> set base32_alphabet"
    by (rule symbol_in_alphabet) simp
  then show ?case using 2 by simp
qed (simp_all add: symbol_in_alphabet)

lemma alphabet_normalized: "list_all (\<lambda>c. toUpperCase_char c = c \<and> \<not> is_space c) base32_alphabet"
  by code_simp

lemma base32_text_normalized: "normalized_secret (Secret_base32 key)"
proof -
  have "\<forall>c \<in> set (Secret_base32 key). toUpperCase_char c = c \<and> \<not> is_space c"
    using symbols_in_alphabet alphabet_normalized
    by (auto simp: Secret_base32_def list_all_iff)
  then show ?thesis
    by (simp add: normalized_secret_def toUpperCase_def list_all_iff map_idI)
qed

lemma build_credential_fields:
  "c_secret (build_credential P u p key) = Secret_base32 key
   \<and> c_algorithm (build_credential P u p key) = (if p_algorithm p = [] then ''SHA1'' else p_algorithm p)
   \<and> c_digits (build_credential P u p key) = (if p_digits p = 0 then 6 else p_digits p)
   \<and> c_period (build_credential P u p key) = (if p_period p = 0 then 30 else p_period p)"
  by (simp add: build_credential_def Let_def split: prod.splits)

lemma migration_stage_fields:
  assumes "migration_stage n = Inr c"
  shows "\<exists>payload. nth_opt (split_str ''otpauth-migration://offline?data='' n) 1 = Some payload
     \<and> c = \<lparr>c_name = ''Migrated Account'', c_issuer = ''Migration Service'',
             c_secret = take 32 payload, c_algorithm = ''SHA1'', c_digits = 6, c_period = 30\<rparr>"
  using assms by (auto simp: migration_stage_def split: option.splits if_splits)

lemma parse_canonical_fields:
  assumes "parse_canonical P n0 u0 = Inr c"
  shows "\<exists>u n p key. URI_parse P u = Inr p \<and> resolve_secret P n p = Inr key
     \<and> c_secret c = Secret_base32 key
     \<and> c_algorithm c = (if p_algorithm p = [] then ''SHA1'' else p_algorithm p)
     \<and> c_digits c = (if p_digits p = 0 then 6 else p_digits p)
     \<and> c_period c = (if p_period p = 0 then 30 else p_period p)"
proof (cases "URI_parse P (add_type_otpauth u0)")
  case (Inl m)
  then show ?thesis using assms by (simp add: parse_canonical_def)
next
  case (Inr p)
  show ?thesis
  proof (cases "resolve_secret P (add_type_normalized n0) p")
    case (Inl m)
    then have False using assms Inr by (simp add: parse_canonical_def Let_def split: if_splits)
    then show ?thesis ..
  next
    case key: (Inr key)
    then have "c = build_credential P (add_type_otpauth u0) p key"
      using assms Inr by (simp add: parse_canonical_def Let_def split: if_splits)
    then show ?thesis
      using build_credential_fields[of P "add_type_otpauth u0" p key] Inr key by blast
  qed
qed

lemma parse_body_migration:
  assumes "parse_body P url = Inr c" and "startsWith (trim url) ''otpauth-migration://''"
  shows "\<exists>payload. nth_opt (split_str ''otpauth-migration://offline?data='' (trim url)) 1 = Some payload
     \<and> c = \<lparr>c_name = ''Migrated Account'', c_issuer = ''Migration Service'',
             c_secret = take 32 payload, c_algorithm = ''SHA1'', c_digits = 6, c_period = 30\<rparr>"
proof -
  have "migration_stage (trim url) = Inr c"
    using assms by (simp add: parse_body_def Let_def split: sum.splits)
  then show ?thesis by (rule migration_stage_fields)
qed

lemma parse_body_library:
  assumes "parse_body P url = Inr c" and "\<not> startsWith (trim url) ''otpauth-migration://''"
  shows "\<exists>u n p key. URI_parse P u = Inr p \<and> resolve_secret P n p = Inr key
     \<and> c_secret c = Secret_base32 key \<and> normalized_secret (c_secret c)
     \<and> c_algorithm c = (if p_algorithm p = [] then ''SHA1'' else p_algorithm p)
     \<and> c_digits c = (if p_digits p = 0 then 6 else p_digits p)
     \<and> c_period c = (if p_period p = 0 then 30 else p_period p)"
proof -
  obtain u0 where "parse_canonical P (trim url) u0 = Inr c"
    using assms by (auto simp: parse_body_def Let_def split: sum.splits)
  then obtain u n p key where f: "URI_parse P u = Inr p" "resolve_secret P n p = Inr key"
      "c_secret c = Secret_base32 key"
      "c_algorithm c = (if p_algorithm p = [] then ''SHA1'' else p_algorithm p)"
      "c_digits c = (if p_digits p = 0 then 6 else p_digits p)"
      "c_period c = (if p_period p = 0 then 30 else p_period p)"
    using parse_canonical_fields by blast
  have "normalized_secret (c_secret c)" using f(3) base32_text_normalized[of key] by simp
  then show ?thesis using f by blast
qed

lemma parse_from_body:
  "parseOTPAuthURL depth P url = Some (Inr c) \<Longrightarrow> \<exists>text. parse_body P text = Inr c"
proof (induction depth arbitrary: url)
  case 0
  then show ?case by simp
next
  case (Suc depth)
  show ?case
  proof (cases "parse_body P url")
    case (Inr c')
    then have "c' = c" using Suc.prems by simp
    then show ?thesis using Inr by blast
  next
    case (Inl e)
    obtain m n where e: "e = (m, n)" by (cases e)
    have "parseOTPAuthURL depth P (replace_first ''otpauth://'' ''otpauth://totp/'' n) = Some (Inr c)"
      using Suc.prems Inl e by (auto split: if_splits option.splits sum.splits)
    then show ?thesis by (rule Suc.IH)
  qed
qed

lemma parse_body_positive:
  assumes "nonnegative_numbers P" and "parse_body P url = Inr c"
  shows "0 < c_digits c \<and> 0 < c_period c"
proof (cases "startsWith (trim url) ''otpauth-migration://''")
  case True
  then show ?thesis using parse_body_migration[OF assms(2)] by auto
next
  case False
  then obtain u p where f: "URI_parse P u = Inr p"
      "c_digits c = (if p_digits p = 0 then 6 else p_digits p)"
      "c_period c = (if p_period p = 0 then 30 else p_period p)"
    using parse_body_library[OF assms(2)] by blast
  have "0 \<le> p_digits p \<and> 0 \<le> p_period p"
    using assms(1) f(1) unfolding nonnegative_numbers_def by blast
  then show ?thesis using f(2,3) by auto
qed

lemma accepted_as_delivered:
  assumes nm: "\<not> startsWith (trim url) ''otpauth-migration://''"
    and ru: "resolve_url P (trim url) = Inr u0"
    and up: "URI_parse P (add_type_otpauth u0) = Inr p"
    and ty: "toLowerCase (otp_type_of p) = ''totp'' \<or> toLowerCase (otp_type_of p) = ''hotp''"
    and key: "p_secret p = Some key"
  shows "\<exists>c. parseOTPAuthURL (Suc depth) P url = Some (Inr c)
     \<and> c_secret c = Secret_base32 key
     \<and> c_algorithm c = (if p_algorithm p = [] then ''SHA1'' else p_algorithm p)
     \<and> c_digits c = (if p_digits p = 0 then 6 else p_digits p)
     \<and> c_period c = (if p_period p = 0 then 30 else p_period p)"
proof -
  have rs: "resolve_secret P (add_type_normalized (trim url)) p = Inr key"
    by (simp add: resolve_secret_def key)
  have "parse_canonical P (trim url) u0 = Inr (build_credential P (add_type_otpauth u0) p key)"
    using ty by (auto simp: parse_canonical_def up rs)
  then have "parse_body P url = Inr (build_credential P (add_type_otpauth u0) p key)"
    using nm ru by (simp add: parse_body_def)
  then have "parseOTPAuthURL (Suc depth) P url = Some (Inr (build_credential P (add_type_otpauth u0) p key))"
    by (rule handler_ok)
  then show ?thesis using build_credential_fields[of P "add_type_otpauth u0" p key] by blast
qed

lemma digit_value_nonneg: "0 \<le> digit_value c"
  by (simp add: digit_value_def split: option.splits)

lemma foldl_decimal_nonneg:
  "0 \<le> a \<Longrightarrow> 0 \<le> foldl (\<lambda>acc c. 10 * acc + digit_value c) a s"
proof (induction s arbitrary: a)
  case Nil
  then show ?case by simp
next
  case (Cons c s)
  have "0 \<le> 10 * a + digit_value c" using Cons.prems digit_value_nonneg[of c] by simp
  then show ?case using Cons.IH by simp
qed

lemma decimal_value_nonneg: "0 \<le> decimal_value s"
  using foldl_decimal_nonneg[of 0 s] by (simp add: decimal_value_def)

lemma ref_numbers: "nonnegative_numbers ref_platform"
proof -
  have "0 \<le> p_digits p \<and> 0 \<le> p_period p" if "ref_URI_parse u = Inr p" for u p
    using that decimal_value_nonneg
    by (auto simp: ref_URI_parse_def Let_def split: if_splits option.splits)
  then show ?thesis by (simp add: nonnegative_numbers_def ref_platform_def)
qed

text \<open>
  C5 (as the code has it). Every credential the parser returns comes out of one run of
  its \<open>try\<close> block. From the migration branch it is the placeholder \<open>Migrated Account\<close>
  of \<open>Migration Service\<close> with algorithm \<open>SHA1\<close>, 6 digits and period 30, whose secret is
  the first 32 characters of the payload as they are. From every other branch its secret
  is the Base32 text of the key, which is normalised (upper case, no white space); its
  algorithm is the name the URI library delivered, or \<open>SHA1\<close> when that is absent; its
  digits and period are the numbers the library delivered, or 6 and 30 when they are
  absent or zero. So digits and period are positive whenever the library delivers no
  negative number, as the reference library does. The parser does not check the
  algorithm: whatever name the library delivers with a supported type and a secret is
  returned. \<open>importAccounts\<close> admits exactly the entries whose name, issuer and secret
  are strings, whatever their other fields.
\<close>

theorem parser_output_fields:
  "(parseOTPAuthURL depth P url = Some (Inr c) \<longrightarrow> (\<exists>text. parse_body P text = Inr c))
   \<and> (parse_body P url = Inr c \<and> startsWith (trim url) ''otpauth-migration://'' \<longrightarrow>
        (\<exists>payload. nth_opt (split_str ''otpauth-migration://offline?data='' (trim url)) 1 = Some payload
           \<and> c = \<lparr>c_name = ''Migrated Account'', c_issuer = ''Migration Service'',
                   c_secret = take 32 payload, c_algorithm = ''SHA1'', c_digits = 6, c_period = 30\<rparr>))
   \<and> (parse_body P url = Inr c \<and> \<not> startsWith (trim url) ''otpauth-migration://'' \<longrightarrow>
        (\<exists>u n p key. URI_parse P u = Inr p \<and> resolve_secret P n p = Inr key
           \<and> c_secret c = Secret_base32 key \<and> normalized_secret (c_secret c)
           \<and> c_algorithm c = (if p_algorithm p = [] then ''SHA1'' else p_algorithm p)
           \<and> c_digits c = (if p_digits p = 0 then 6 else p_digits p)
           \<and> c_period c = (if p_period p = 0 then 30 else p_period p)))
   \<and> (nonnegative_numbers P \<and> parseOTPAuthURL depth P url = Some (Inr c) \<longrightarrow>
        0 < c_digits c \<and> 0 < c_period c)
   \<and> nonnegative_numbers ref_platform
   \<and> (\<not> startsWith (trim url) ''otpauth-migration://'' \<and> resolve_url P (trim url) = Inr u0
        \<and> URI_parse P (add_type_otpauth u0) = Inr p
        \<and> (toLowerCase (otp_type_of p) = ''totp'' \<or> toLowerCase (otp_type_of p) = ''hotp'')
        \<and> p_secret p = Some key \<longrightarrow>
        (\<exists>c'. parseOTPAuthURL (Suc depth) P url = Some (Inr c')
           \<and> c_secret c' = Secret_base32 key
           \<and> c_algorithm c' = (if p_algorithm p = [] then ''SHA1'' else p_algorithm p)
           \<and> c_digits c' = (if p_digits p = 0 then 6 else p_digits p)
           \<and> c_period c' = (if p_period p = 0 then 30 else p_period p)))
   \<and> valid_account a = has_string_fields a"
proof -
  have pos: "nonnegative_numbers P \<Longrightarrow> parseOTPAuthURL depth P url = Some (Inr c) \<Longrightarrow>
      0 < c_digits c \<and> 0 < c_period c"
    using parse_from_body[of depth P url c] parse_body_positive[of P _ c] by blast
  have imp: "valid_account a = has_string_fields a"
    using valid_account_iff[of a] by (simp add: has_string_fields_def)
  show ?thesis
    using parse_from_body[of depth P url c] parse_body_migration[of P url c]
      parse_body_library[of P url c] pos ref_numbers
      accepted_as_delivered[of url P u0 p key depth] imp
    by blast
qed

lemma sha384_facts:
  "\<not> startsWith (trim sha384_url) ''otpauth-migration://''"
  "resolve_url ref_platform (trim sha384_url) = Inr sha384_url"
  "URI_parse ref_platform (add_type_otpauth sha384_url) = Inr sha384_parsed"
  "toLowerCase (otp_type_of sha384_parsed) = ''totp''"
  "parseOTPAuthURL (Suc 0) ref_platform sha384_url = Some (Inr sha384_credential)"
  "parse_body ref_platform sha384_url = Inr sha384_credential"
  "sha384_credential \<noteq> example_credential"
  by code_simp+

lemma migration_facts:
  "startsWith (trim migration_url) ''otpauth-migration://''"
  "parse_body ref_platform migration_url = Inr migration_credential"
  "nth_opt (split_str ''otpauth-migration://offline?data='' (trim migration_url)) 1 = Some ''abc def''"
  by code_simp+

theorem parser_output_fields_witness:
  "parseOTPAuthURL (Suc 0) ref_platform sha384_url = Some (Inr sha384_credential)
   \<and> parse_body ref_platform sha384_url = Inr sha384_credential
   \<and> \<not> startsWith (trim sha384_url) ''otpauth-migration://''
   \<and> resolve_url ref_platform (trim sha384_url) = Inr sha384_url
   \<and> URI_parse ref_platform (add_type_otpauth sha384_url) = Inr sha384_parsed
   \<and> toLowerCase (otp_type_of sha384_parsed) = ''totp''
   \<and> p_secret sha384_parsed = Some [72, 101, 108, 108, 111, 33, 222, 173, 190, 239]
   \<and> p_algorithm sha384_parsed = ''SHA384''
   \<and> c_algorithm sha384_credential = ''SHA384''
   \<and> c_algorithm sha384_credential \<notin> set supported_algorithms
   \<and> normalized_secret (c_secret sha384_credential)
   \<and> nonnegative_numbers ref_platform
   \<and> 0 < c_digits sha384_credential \<and> 0 < c_period sha384_credential
   \<and> startsWith (trim migration_url) ''otpauth-migration://''
   \<and> parse_body ref_platform migration_url = Inr migration_credential
   \<and> c_secret migration_credential = take 32 ''abc def''
   \<and> valid_account sample_entry = has_string_fields sample_entry"
proof -
  note lib = parser_output_fields[of "Suc 0" ref_platform sha384_url sha384_credential sha384_url
      sha384_parsed "[72, 101, 108, 108, 111, 33, 222, 173, 190, 239]" sample_entry]
  note mig = parser_output_fields[of "Suc 0" ref_platform migration_url migration_credential sha384_url
      sha384_parsed "[72, 101, 108, 108, 111, 33, 222, 173, 190, 239]" sample_entry]
  have nn: "nonnegative_numbers ref_platform" using lib by blast
  have pos: "0 < c_digits sha384_credential \<and> 0 < c_period sha384_credential"
    using lib nn sha384_facts(5) by blast
  have norm: "normalized_secret (c_secret sha384_credential)"
    using lib sha384_facts(1,6) by blast
  have imp: "valid_account sample_entry = has_string_fields sample_entry" using lib by blast
  obtain payload where p: "nth_opt (split_str ''otpauth-migration://offline?data='' (trim migration_url)) 1 = Some payload"
    and c: "migration_credential =
      \<lparr>c_name = ''Migrated Account'', c_issuer = ''Migration Service'',
        c_secret = take 32 payload, c_algorithm = ''SHA1'', c_digits = 6, c_period = 30\<rparr>"
    using mig migration_facts(1,2) by blast
  have "payload = ''abc def''" using p migration_facts(3) by simp
  then have sec: "c_secret migration_credential = take 32 ''abc def''"
    by (subst c) simp
  have alg: "c_algorithm sha384_credential = ''SHA384''" "c_algorithm sha384_credential \<notin> set supported_algorithms"
    by (simp_all add: sha384_credential_def supported_algorithms_def)
  have par: "p_secret sha384_parsed = Some [72, 101, 108, 108, 111, 33, 222, 173, 190, 239]"
    "p_algorithm sha384_parsed = ''SHA384''"
    by (simp_all add: sha384_parsed_def)
  show ?thesis using nn pos norm imp sec alg par sha384_facts migration_facts by blast
qed

text \<open>
  The claim as the spec words it fails on both sides: the migration branch returns a
  secret in lower case with a space in it, and \<open>importAccounts\<close> admits an entry with
  such a secret, algorithm \<open>MD5\<close>, digits -1 and period 0.
\<close>

theorem credential_invariant_counterexample:
  "parseOTPAuthURL (Suc 0) ref_platform migration_url = Some (Inr migration_credential)
   \<and> \<not> credential_invariant migration_credential
   \<and> valid_account sample_entry \<and> \<not> stored_invariant sample_entry"
  by code_simp

end
